theory Spec2Isabelle
  imports Complex_Main "HOL-Library.Multiset"
begin

section \<open>Values\<close>

text \<open>
  A float64 as numpy and pandas compute with it. Finite values are exact rationals: the
  rounding of float64 is not modelled, and neither is the sign of zero. The three
  non-finite values are kept apart, since the pipeline's quotients produce them.
\<close>

datatype fval = Fin rat | PInf | NInf | NaN

fun isfinite :: "fval \<Rightarrow> bool" where
  "isfinite (Fin a) = True"
| "isfinite x = False"

text \<open>
  True division of two float64 values as pandas does it for a Series: a zero divisor gives
  an infinity of the dividend's sign, \<open>0 / 0\<close> and anything with NaN give NaN; nothing raises.
\<close>

fun fdiv :: "fval \<Rightarrow> fval \<Rightarrow> fval" where
  "fdiv NaN y = NaN"
| "fdiv x NaN = NaN"
| "fdiv (Fin a) (Fin b) =
     (if b = 0 then (if a = 0 then NaN else if 0 < a then PInf else NInf) else Fin (a / b))"
| "fdiv (Fin a) y = Fin 0"
| "fdiv PInf (Fin b) = (if 0 \<le> b then PInf else NInf)"
| "fdiv NInf (Fin b) = (if 0 \<le> b then NInf else PInf)"
| "fdiv x y = NaN"

text \<open>
  What \<open>json.loads\<close> returns, and what a cell of a DataFrame holds: Python objects. An
  integer is a \<open>PInt\<close>, of any size as in Python; a float is a \<open>PNum\<close>. A dict is the
  list of its items in insertion order (its keys are distinct). The missing-value marker of
  pandas is the float NaN, \<open>PNum NaN\<close>.
\<close>

datatype pyval =
    PNone
  | PBool bool
  | PInt int
  | PNum fval
  | PStr string
  | PList "pyval list"
  | PDict "(string \<times> pyval) list"

fun is_float :: "pyval \<Rightarrow> bool" where
  "is_float (PNum x) = True"
| "is_float v = False"

fun is_int :: "pyval \<Rightarrow> bool" where
  "is_int (PInt i) = True"
| "is_int v = False"

text \<open>The integers that numpy holds as int64, and as uint64.\<close>

fun in_int64 :: "pyval \<Rightarrow> bool" where
  "in_int64 (PInt i) = (- (2 ^ 63) \<le> i \<and> i < 2 ^ 63)"
| "in_int64 v = False"

fun in_uint64 :: "pyval \<Rightarrow> bool" where
  "in_uint64 (PInt i) = (0 \<le> i \<and> i < 2 ^ 64)"
| "in_uint64 v = False"

text \<open>The integers that Python converts to a float without OverflowError.\<close>

fun fits_double :: "pyval \<Rightarrow> bool" where
  "fits_double (PInt i) = (- (2 ^ 1023) < i \<and> i < 2 ^ 1023)"
| "fits_double v = False"

text \<open>The float of a number; NaN for \<open>None\<close>, which is what pandas puts for it in a float
  column.\<close>

fun as_float :: "pyval \<Rightarrow> fval" where
  "as_float (PNum x) = x"
| "as_float (PInt i) = Fin (of_int i)"
| "as_float v = NaN"

text \<open>What pandas takes for a missing value: \<open>None\<close> and the float NaN.\<close>

fun is_na :: "pyval \<Rightarrow> bool" where
  "is_na PNone = True"
| "is_na (PNum x) = (x = NaN)"
| "is_na v = False"

text \<open>The exceptions of the pipeline; \<open>Unmodelled\<close> marks a pandas behaviour this model
  does not follow (arithmetic on columns that hold anything but numbers and \<open>None\<close>,
  selecting a repeated column label, a \<open>properties\<close> value that is not an array of
  objects).\<close>

datatype error =
    KeyError
  | JSONDecodeError
  | TypeError
  | ValueError
  | IndexError
  | RecursionError
  | ZeroDivisionError
  | Unmodelled

section \<open>DataFrames\<close>

text \<open>A column label is a string, or an integer position (what \<open>pd.Series\<close> gives a value
  that is no dict).\<close>

datatype label = LStr string | LInt nat

fun str_nat :: "nat \<Rightarrow> string" where
  "str_nat n =
     (if n < 10 then [''0123456789'' ! n]
      else str_nat (n div 10) @ [''0123456789'' ! (n mod 10)])"

declare str_nat.simps [simp del]

fun str_label :: "label \<Rightarrow> string" where
  "str_label (LStr s) = s"
| "str_label (LInt n) = str_nat n"

text \<open>A DataFrame with the default index \<open>0 .. nrows - 1\<close>: its columns in order, each
  with its label and its cells, one cell per row.\<close>

record frame =
  nrows :: nat
  columns :: "(label \<times> pyval list) list"

definition empty_frame :: frame where
  "empty_frame = \<lparr>nrows = 0, columns = []\<rparr>"

text \<open>The order of first appearance, as pandas orders the keys of a list of dicts.\<close>

definition first_seen :: "'a list \<Rightarrow> 'a list" where
  "first_seen xs = rev (remdups (rev xs))"

text \<open>
  The type inference of pandas on a column of Python objects (\<open>maybe_convert_objects\<close>).
  A column of floats, int64 integers and \<open>None\<close> with at least one number, and not of
  integers alone, becomes a float64 column: the integers become floats and \<open>None\<close> becomes
  NaN. Every other column keeps its cells: a column of integers alone is an int64 or a
  uint64 column when they all fit, and a column of Python objects when one of them is
  beyond 64 bits, as is a column that holds anything but numbers.
\<close>

fun to_float64 :: "pyval \<Rightarrow> pyval" where
  "to_float64 (PInt i) = PNum (Fin (of_int i))"
| "to_float64 PNone = PNum NaN"
| "to_float64 v = v"

definition maybe_convert_objects :: "pyval list \<Rightarrow> pyval list" where
  "maybe_convert_objects cs =
     (if list_all (\<lambda>c. is_float c \<or> in_int64 c \<or> c = PNone) cs \<and>
         list_ex (\<lambda>c. is_float c \<or> in_int64 c) cs \<and> \<not> list_all in_int64 cs
      then map to_float64 cs
      else cs)"

definition lookup_or_nan :: "('k \<times> pyval) list \<Rightarrow> 'k \<Rightarrow> pyval" where
  "lookup_or_nan kvs k = (case map_of kvs k of None \<Rightarrow> PNum NaN | Some v \<Rightarrow> v)"

text \<open>The table of a list of records: one row per record, one column per key, NaN where
  a record has no such key.\<close>

definition frame_of_records :: "('k \<Rightarrow> label) \<Rightarrow> ('k \<times> pyval) list list \<Rightarrow> frame" where
  "frame_of_records lab rs =
     \<lparr>nrows = length rs,
      columns = map (\<lambda>k. (lab k, maybe_convert_objects (map (\<lambda>r. lookup_or_nan r k) rs)))
                    (first_seen (concat (map (map fst) rs)))\<rparr>"

fun as_dict :: "pyval \<Rightarrow> (string \<times> pyval) list option" where
  "as_dict (PDict kvs) = Some kvs"
| "as_dict v = None"

text \<open>\<open>pd.DataFrame(v)\<close>. An array of objects gives the table of its records, \<open>None\<close>,
  \<open>[]\<close> and \<open>{}\<close> the empty table, a scalar raises ValueError.\<close>

fun DataFrame :: "pyval \<Rightarrow> error + frame" where
  "DataFrame PNone = Inr empty_frame"
| "DataFrame (PList xs) =
     (case those (map as_dict xs) of
        None \<Rightarrow> Inl Unmodelled
      | Some ds \<Rightarrow> Inr (frame_of_records LStr ds))"
| "DataFrame (PDict kvs) = (if kvs = [] then Inr empty_frame else Inl Unmodelled)"
| "DataFrame v = Inl ValueError"

text \<open>\<open>df[l]\<close> for a label: KeyError when no column has it. When several have it pandas
  returns a table instead of a column, which the model does not follow.\<close>

definition getitem :: "label \<Rightarrow> frame \<Rightarrow> error + pyval list" where
  "getitem l df =
     (case filter (\<lambda>c. fst c = l) (columns df) of
        [] \<Rightarrow> Inl KeyError
      | [c] \<Rightarrow> Inr (snd c)
      | c # c' # cs \<Rightarrow> Inl Unmodelled)"

text \<open>\<open>df.drop(l, axis=1)\<close>: every column of that label goes; KeyError when there is none.\<close>

definition drop_axis1 :: "label \<Rightarrow> frame \<Rightarrow> error + frame" where
  "drop_axis1 l df =
     (if l \<in> fst ` set (columns df)
      then Inr (df\<lparr>columns := filter (\<lambda>c. fst c \<noteq> l) (columns df)\<rparr>)
      else Inl KeyError)"

text \<open>\<open>pd.Series(v)\<close> for one cell: the items of a dict, the positions of a list, nothing
  for \<open>None\<close>, and position 0 for any other value (NaN among them).\<close>

fun Series :: "pyval \<Rightarrow> (label \<times> pyval) list" where
  "Series (PDict kvs) = map (\<lambda>kv. (LStr (fst kv), snd kv)) kvs"
| "Series (PList xs) = zip (map LInt [0..<length xs]) xs"
| "Series PNone = []"
| "Series v = [(LInt 0, v)]"

text \<open>\<open>column.apply(pd.Series)\<close>: the table whose rows are the Series of the cells.\<close>

definition apply_Series :: "pyval list \<Rightarrow> frame" where
  "apply_Series cells = frame_of_records id (map Series cells)"

definition add_prefix :: "string \<Rightarrow> frame \<Rightarrow> frame" where
  "add_prefix p df = df\<lparr>columns := map (\<lambda>c. (LStr (p @ str_label (fst c)), snd c)) (columns df)\<rparr>"

text \<open>\<open>pd.concat([a, b], axis=1)\<close> of two tables over the same index.\<close>

definition concat_axis1 :: "frame \<Rightarrow> frame \<Rightarrow> frame" where
  "concat_axis1 a b = a\<lparr>columns := columns a @ columns b\<rparr>"

text \<open>\<open>df[l] = cells\<close>: every column of that label is overwritten; a new label is appended.\<close>

definition setitem :: "label \<Rightarrow> pyval list \<Rightarrow> frame \<Rightarrow> frame" where
  "setitem l cells df =
     (if l \<in> fst ` set (columns df)
      then df\<lparr>columns := map (\<lambda>c. if fst c = l then (l, cells) else c) (columns df)\<rparr>
      else df\<lparr>columns := columns df @ [(l, cells)]\<rparr>)"

text \<open>The dtype of a column is numeric: float64, int64 or uint64.\<close>

definition numeric_dtype :: "pyval list \<Rightarrow> bool" where
  "numeric_dtype cs = (list_all is_float cs \<or> list_all in_int64 cs \<or> list_all in_uint64 cs)"

text \<open>A column that pandas holds as Python objects and whose cells are all \<open>None\<close>, or are
  all integers (one of them beyond 64 bits).\<close>

definition object_column :: "pyval list \<Rightarrow> bool" where
  "object_column cs =
     (\<not> numeric_dtype cs \<and> (list_all (\<lambda>c. c = PNone) cs \<or> list_all fits_double cs))"

text \<open>The quotient of two numeric columns: numpy divides cell by cell as floats, with
  \<^const>\<open>fdiv\<close>, and raises nothing.\<close>

definition quotient :: "pyval list \<Rightarrow> pyval list \<Rightarrow> pyval list" where
  "quotient xs ys = map (\<lambda>xy. PNum (fdiv (as_float (fst xy)) (as_float (snd xy)))) (zip xs ys)"

text \<open>Python's \<open>x / y\<close> on two cells: TypeError when one is \<open>None\<close>, ZeroDivisionError
  when two numbers are divided by zero, and the float quotient otherwise.\<close>

definition py_truediv :: "pyval \<Rightarrow> pyval \<Rightarrow> error + pyval" where
  "py_truediv x y =
     (if x = PNone \<or> y = PNone then Inl TypeError
      else if (is_int x \<or> is_float x) \<and> (is_int y \<or> is_float y) then
        (if as_float y = Fin 0 then Inl ZeroDivisionError
         else Inr (PNum (fdiv (as_float x) (as_float y))))
      else Inl Unmodelled)"

text \<open>When one of the columns holds Python objects, numpy applies Python's \<open>/\<close> to the
  pairs of cells in order, and the first exception ends it.\<close>

fun divide_all :: "(pyval \<times> pyval) list \<Rightarrow> error + pyval list" where
  "divide_all [] = Inr []"
| "divide_all (p # ps) =
     (case py_truediv (fst p) (snd p) of
        Inl e \<Rightarrow> Inl e
      | Inr q \<Rightarrow> (case divide_all ps of Inl e \<Rightarrow> Inl e | Inr qs \<Rightarrow> Inr (q # qs)))"

text \<open>\<open>masked_arith_op\<close> of pandas: the pairs with a missing value give NaN, the others
  are divided as before.\<close>

fun masked_arith_op :: "(pyval \<times> pyval) list \<Rightarrow> error + pyval list" where
  "masked_arith_op [] = Inr []"
| "masked_arith_op (p # ps) =
     (case (if is_na (fst p) \<or> is_na (snd p) then Inr (PNum NaN)
            else py_truediv (fst p) (snd p)) of
        Inl e \<Rightarrow> Inl e
      | Inr q \<Rightarrow> (case masked_arith_op ps of Inl e \<Rightarrow> Inl e | Inr qs \<Rightarrow> Inr (q # qs)))"

text \<open>pandas catches a TypeError of the division of the cells and divides again with
  \<open>masked_arith_op\<close>; any other exception, ZeroDivisionError among them, goes up.\<close>

definition object_truediv :: "pyval list \<Rightarrow> pyval list \<Rightarrow> error + pyval list" where
  "object_truediv xs ys =
     (case divide_all (zip xs ys) of
        Inl e \<Rightarrow> (if e = TypeError then masked_arith_op (zip xs ys) else Inl e)
      | Inr q \<Rightarrow> Inr q)"

text \<open>\<open>a / b\<close> for two columns of a table. What pandas does with a column that holds
  anything but numbers and \<open>None\<close>, or integers too large for a float, is not modelled.\<close>

definition truediv :: "pyval list \<Rightarrow> pyval list \<Rightarrow> error + pyval list" where
  "truediv xs ys =
     (if numeric_dtype xs \<and> numeric_dtype ys then Inr (quotient xs ys)
      else if (numeric_dtype xs \<or> object_column xs) \<and> (numeric_dtype ys \<or> object_column ys)
      then object_truediv xs ys
      else Inl Unmodelled)"

section \<open>KPI calculation\<close>

text \<open>One line of \<open>get_kpis\<close>: \<open>df.loc[:, name] = df[a] / df[b]\<close>.\<close>

definition assign_quotient :: "string \<Rightarrow> string \<Rightarrow> string \<Rightarrow> frame \<Rightarrow> error + frame" where
  "assign_quotient name a b df =
     (case getitem (LStr a) df of
        Inl e \<Rightarrow> Inl e
      | Inr xs \<Rightarrow>
          (case getitem (LStr b) df of
             Inl e \<Rightarrow> Inl e
           | Inr ys \<Rightarrow>
               (case truediv xs ys of
                  Inl e \<Rightarrow> Inl e
                | Inr q \<Rightarrow> Inr (setitem (LStr name) q df))))"

text \<open>\<open>get_kpis\<close>, lines 240-249: three quotients of columns, each stored under its name
  before the next one is computed.\<close>

definition get_kpis :: "frame \<Rightarrow> error + frame" where
  "get_kpis df =
     (case assign_quotient ''price_per_sqft'' ''price'' ''building_size_size'' df of
        Inl e \<Rightarrow> Inl e
      | Inr df1 \<Rightarrow>
          (case assign_quotient ''price_per_beds'' ''price'' ''beds'' df1 of
             Inl e \<Rightarrow> Inl e
           | Inr df2 \<Rightarrow> assign_quotient ''price_per_bath'' ''price'' ''baths'' df2))"

section \<open>Normalization\<close>

text \<open>
  The loop over \<open>cols_to_expand\<close>, lines 122-126 and 198-202: the nested column is
  dropped and the table of its sub-fields is appended, under the sub-fields' own names for
  \<open>address\<close> and under the column's name, an underscore and the sub-field's name otherwise.
  \<open>df.drop\<close> is evaluated first, then \<open>df[col]\<close>.
\<close>

fun expand :: "string list \<Rightarrow> frame \<Rightarrow> error + frame" where
  "expand [] df = Inr df"
| "expand (col # cols) df =
     (case drop_axis1 (LStr col) df of
        Inl e \<Rightarrow> Inl e
      | Inr rest \<Rightarrow>
          (case getitem (LStr col) df of
             Inl e \<Rightarrow> Inl e
           | Inr cells \<Rightarrow>
               expand cols
                 (concat_axis1 rest
                    (if col \<in> set [''address''] then apply_Series cells
                     else add_prefix (col @ ''_'') (apply_Series cells)))))"

text \<open>Lines 116-130 and 192-206, the same in both acquisitions but for the order of
  \<open>cols_to_expand\<close>: expand the nested columns, set \<open>run_date\<close>, compute the KPIs.
  \<open>today\<close> is what \<open>datetime.now().strftime('%Y-%m-%d')\<close> returns; the two readings of
  the clock in one call (lines 101 and 128) are taken to fall on the same day.\<close>

definition tabulate :: "string list \<Rightarrow> string \<Rightarrow> frame \<Rightarrow> error + frame" where
  "tabulate cols_to_expand today df =
     (case expand cols_to_expand df of
        Inl e \<Rightarrow> Inl e
      | Inr df1 \<Rightarrow> get_kpis (setitem (LStr ''run_date'') (replicate (nrows df1) (PStr today)) df1))"

section \<open>The upstream API and the artifact store\<close>

record request =
  url :: string
  querystring :: "(string \<times> string) list"
  headers :: "(string \<times> string) list"

text \<open>A response of the upstream: its text, and what \<open>json.loads\<close> makes of the text
  (\<open>None\<close> when it raises JSONDecodeError).\<close>

record response =
  raw :: string
  loads :: "pyval option"

text \<open>
  The world the pipeline acts on: the artifact store, the requests sent so far, the paths
  put to the store so far, and the lines printed. The store holds, under a path, the table
  written there; the CSV text itself is not modelled.
\<close>

record world =
  store :: "string \<rightharpoonup> frame"
  sent :: "request list"
  puts :: "string list"
  printed :: "string list"

definition RADIUS :: string where
  "RADIUS = ''10''"

definition SORT :: string where
  "SORT = ''price_low''"

definition ZIP_CODES :: "string list" where
  "ZIP_CODES = [''55414'', ''53711'', ''53545'', ''53202'', ''55806'']"

definition print :: "string \<Rightarrow> world \<Rightarrow> world" where
  "print s w = w\<lparr>printed := printed w @ [s]\<rparr>"

text \<open>\<open>df.to_csv(path)\<close> and \<open>co.data.pipeline.put(path, path)\<close>, lines 132-133.\<close>

definition put :: "string \<Rightarrow> frame \<Rightarrow> world \<Rightarrow> world" where
  "put path df w = w\<lparr>store := (store w)(path \<mapsto> df), puts := puts w @ [path]\<rparr>"

text \<open>
  A column of an artifact read back with \<open>pd.read_csv\<close>, selected by name. The header of
  the CSV holds the labels as text, and of several columns written under one name the
  first keeps the name (\<open>read_csv\<close> renames the later ones). The index that \<open>to_csv\<close>
  writes as a first column has no name and is never selected. The cells of the columns
  the pipeline reads back (the date string \<open>run_date\<close> and the float KPI columns) come
  back as written.
\<close>

definition read_column :: "string \<Rightarrow> frame \<Rightarrow> error + pyval list" where
  "read_column name art =
     (case filter (\<lambda>c. str_label (fst c) = name) (columns art) of
        [] \<Rightarrow> Inl KeyError
      | c # cs \<Rightarrow> Inr (snd c))"

text \<open>\<open>check_run_today\<close>, lines 75-85.\<close>

definition check_run_today :: "string \<Rightarrow> world \<Rightarrow> error + pyval" where
  "check_run_today path w =
     (case store w path of
        None \<Rightarrow> Inr (PBool False)
      | Some art \<Rightarrow>
          (case read_column ''run_date'' art of
             Inl e \<Rightarrow> Inl e
           | Inr cells \<Rightarrow> (case cells of [] \<Rightarrow> Inl IndexError | c # cs \<Rightarrow> Inr c)))"

text \<open>\<open>_get_rental_data\<close>, lines 138-161, and \<open>_get_sales_data\<close>, lines 214-237. The upstream
  \<open>api\<close> answers a request given the number of requests sent before it.\<close>

definition rental_request :: "string \<Rightarrow> string \<Rightarrow> request" where
  "rental_request api_key zip_code =
     \<lparr>url = ''https://realtor.p.rapidapi.com/properties/v2/list-for-rent'',
      querystring = [(''postal_code'', zip_code), (''SORT'', SORT), (''RADIUS'', RADIUS),
                     (''limit'', ''200''), (''offset'', ''0''), (''prop_type'', ''single_family'')],
      headers = [(''x-rapidapi-host'', ''realtor.p.rapidapi.com''), (''x-rapidapi-key'', api_key)]\<rparr>"

definition sales_request :: "string \<Rightarrow> string \<Rightarrow> request" where
  "sales_request api_key zip_code =
     \<lparr>url = ''https://realtor.p.rapidapi.com/properties/v2/list-for-sale'',
      querystring = [(''prop_type'', ''single_family''), (''postal_code'', zip_code),
                     (''SORT'', SORT), (''RADIUS'', RADIUS), (''limit'', ''200''), (''offset'', ''0'')],
      headers = [(''x-rapidapi-host'', ''realtor.p.rapidapi.com''), (''x-rapidapi-key'', api_key)]\<rparr>"

text \<open>\<open>requests.request("GET", ...).text\<close>: the request is sent and the upstream answers.\<close>

definition send :: "(request \<Rightarrow> nat \<Rightarrow> response) \<Rightarrow> request \<Rightarrow> world \<Rightarrow> response \<times> world" where
  "send api rq w = (api rq (length (sent w)), w\<lparr>sent := sent w @ [rq]\<rparr>)"

definition get_rental_data ::
  "(request \<Rightarrow> nat \<Rightarrow> response) \<Rightarrow> string \<Rightarrow> string \<Rightarrow> world \<Rightarrow> response \<times> world" where
  "get_rental_data api api_key zip_code w = send api (rental_request api_key zip_code) w"

definition get_sales_data ::
  "(request \<Rightarrow> nat \<Rightarrow> response) \<Rightarrow> string \<Rightarrow> string \<Rightarrow> world \<Rightarrow> response \<times> world" where
  "get_sales_data api api_key zip_code w = send api (sales_request api_key zip_code) w"

text \<open>\<open>pd.DataFrame(json.loads(data)['properties'])\<close>, lines 108 and 184. Subscripting a
  JSON value that is no object with a string raises TypeError.\<close>

definition properties_frame :: "response \<Rightarrow> error + frame" where
  "properties_frame data =
     (case loads data of
        None \<Rightarrow> Inl JSONDecodeError
      | Some v \<Rightarrow>
          (case v of
             PDict kvs \<Rightarrow>
               (case map_of kvs ''properties'' of
                  None \<Rightarrow> Inl KeyError
                | Some props \<Rightarrow> DataFrame props)
           | _ \<Rightarrow> Inl TypeError))"

section \<open>Acquisition\<close>

datatype outcome = Returned | Raised error

text \<open>
  \<open>gen_rental_data\<close>, lines 88-135. The first argument is the number of calls the Python
  stack can still take: the function calls itself on a malformed payload, and Python
  raises RecursionError when the stack is exhausted.
\<close>

fun gen_rental_data ::
  "nat \<Rightarrow> (request \<Rightarrow> nat \<Rightarrow> response) \<Rightarrow> string \<Rightarrow> string \<Rightarrow> string \<Rightarrow> string \<Rightarrow> world
     \<Rightarrow> outcome \<times> world" where
  "gen_rental_data 0 api today path api_key zip_code w = (Raised RecursionError, w)"
| "gen_rental_data (Suc depth) api today path api_key zip_code w =
     (case check_run_today path w of
        Inl e \<Rightarrow> (Raised e, w)
      | Inr run_check \<Rightarrow>
          (if run_check \<noteq> PStr today then
             (case get_rental_data api api_key zip_code w of
                (data, w1) \<Rightarrow>
                  (case properties_frame data of
                     Inl e \<Rightarrow>
                       (if e = KeyError \<or> e = JSONDecodeError
                        then gen_rental_data depth api today path api_key zip_code
                               (print (''Error: '' @ raw data) w1)
                        else (Raised e, w1))
                   | Inr df \<Rightarrow>
                       (if nrows df = 0 then (Returned, print (''No Rentals for: '' @ zip_code) w1)
                        else
                          (case tabulate [''address'', ''lot_size'', ''building_size''] today df of
                             Inl e \<Rightarrow> (Raised e, w1)
                           | Inr df' \<Rightarrow> (Returned, print ''CSV written'' (put path df' w1))))))
           else (Returned, print ''Data already collected today'' w)))"

text \<open>\<open>gen_sales_data\<close>, lines 164-211.\<close>

fun gen_sales_data ::
  "nat \<Rightarrow> (request \<Rightarrow> nat \<Rightarrow> response) \<Rightarrow> string \<Rightarrow> string \<Rightarrow> string \<Rightarrow> string \<Rightarrow> world
     \<Rightarrow> outcome \<times> world" where
  "gen_sales_data 0 api today path api_key zip_code w = (Raised RecursionError, w)"
| "gen_sales_data (Suc depth) api today path api_key zip_code w =
     (case check_run_today path w of
        Inl e \<Rightarrow> (Raised e, w)
      | Inr run_check \<Rightarrow>
          (if run_check \<noteq> PStr today then
             (case get_sales_data api api_key zip_code w of
                (data, w1) \<Rightarrow>
                  (case properties_frame data of
                     Inl e \<Rightarrow>
                       (if e = KeyError \<or> e = JSONDecodeError
                        then gen_sales_data depth api today path api_key zip_code
                               (print (''Error: '' @ raw data) w1)
                        else (Raised e, w1))
                   | Inr df \<Rightarrow>
                       (if nrows df = 0
                        then (Returned, print (''No properties for sale in: '' @ zip_code) w1)
                        else
                          (case tabulate [''address'', ''building_size'', ''lot_size''] today df of
                             Inl e \<Rightarrow> (Raised e, w1)
                           | Inr df' \<Rightarrow> (Returned, print ''CSV written'' (put path df' w1))))))
           else (Returned, print ''Data already collected today'' w)))"

section \<open>Aggregation\<close>

text \<open>The order of float64 on the values that are not NaN.\<close>

fun fle :: "fval \<Rightarrow> fval \<Rightarrow> bool" where
  "fle NInf y = True"
| "fle x PInf = True"
| "fle (Fin a) (Fin b) = (a \<le> b)"
| "fle x y = False"

text \<open>A stable ascending sort by insertion, which is what numpy's \<open>argsort\<close> does on the
  short arrays of this pipeline.\<close>

fun insert_by :: "('a \<Rightarrow> 'a \<Rightarrow> bool) \<Rightarrow> 'a \<Rightarrow> 'a list \<Rightarrow> 'a list" where
  "insert_by le x [] = [x]"
| "insert_by le x (y # ys) = (if le x y then x # y # ys else y # insert_by le x ys)"

definition sort_by :: "('a \<Rightarrow> 'a \<Rightarrow> bool) \<Rightarrow> 'a list \<Rightarrow> 'a list" where
  "sort_by le xs = foldr (insert_by le) xs []"

text \<open>The mean of the two middle values, as \<open>np.nanmedian\<close> takes it.\<close>

fun fmean :: "fval \<Rightarrow> fval \<Rightarrow> fval" where
  "fmean (Fin a) (Fin b) = Fin ((a + b) / 2)"
| "fmean NaN y = NaN"
| "fmean x NaN = NaN"
| "fmean PInf NInf = NaN"
| "fmean NInf PInf = NaN"
| "fmean PInf y = PInf"
| "fmean x PInf = PInf"
| "fmean NInf y = NInf"
| "fmean x NInf = NInf"

text \<open>The median of values none of which is NaN: the middle one in ascending order, or
  the mean of the two middle ones; NaN when there is no value.\<close>

definition middle :: "fval list \<Rightarrow> fval" where
  "middle xs =
     (let ys = sort_by fle xs; n = length ys
      in if n = 0 then NaN
         else if odd n then ys ! (n div 2)
         else fmean (ys ! (n div 2 - 1)) (ys ! (n div 2)))"

text \<open>The median of pandas with its default \<open>skipna=True\<close>: NaN is left out, every other
  value takes part, the infinities among them.\<close>

definition nanmedian :: "fval list \<Rightarrow> fval" where
  "nanmedian xs = middle (filter (\<lambda>x. x \<noteq> NaN) xs)"

text \<open>\<open>column.median()\<close> of a float column.\<close>

definition median :: "pyval list \<Rightarrow> error + fval" where
  "median cells =
     (if list_all is_float cells then Inr (nanmedian (map as_float cells)) else Inl Unmodelled)"

text \<open>\<open>df['price_per_sqft'].median()\<close> of an artifact read back.\<close>

definition column_median :: "string \<Rightarrow> frame \<Rightarrow> error + fval" where
  "column_median name art =
     (case read_column name art of Inl e \<Rightarrow> Inl e | Inr cells \<Rightarrow> median cells)"

text \<open>Line 273: \<open>rental_df['price_per_sqft'].median() / sales_df['price_per_sqft'].median()\<close>,
  a quotient of two numpy floats.\<close>

definition ratio :: "frame \<Rightarrow> frame \<Rightarrow> error + fval" where
  "ratio rental_df sales_df =
     (case column_median ''price_per_sqft'' rental_df of
        Inl e \<Rightarrow> Inl e
      | Inr m1 \<Rightarrow>
          (case column_median ''price_per_sqft'' sales_df of
             Inl e \<Rightarrow> Inl e
           | Inr m2 \<Rightarrow> Inr (fdiv m1 m2)))"

text \<open>Lines 282-283: \<open>df[[...]].median(axis=0)\<close>, the medians of the named columns.\<close>

fun medians :: "string list \<Rightarrow> frame \<Rightarrow> error + fval list" where
  "medians [] art = Inr []"
| "medians (name # names) art =
     (case column_median name art of
        Inl e \<Rightarrow> Inl e
      | Inr m \<Rightarrow> (case medians names art of Inl e \<Rightarrow> Inl e | Inr ms \<Rightarrow> Inr (m # ms)))"

text \<open>\<open>d[k] = v\<close> on a Python dict: a key keeps its place, a new key goes last.\<close>

fun dict_set :: "('k \<times> 'v) list \<Rightarrow> 'k \<Rightarrow> 'v \<Rightarrow> ('k \<times> 'v) list" where
  "dict_set [] k v = [(k, v)]"
| "dict_set (kv # kvs) k v = (if fst kv = k then (k, v) # kvs else kv # dict_set kvs k v)"

text \<open>
  \<open>pd.Series(d).sort_values(ascending=False)\<close>: the entries that are not NaN in descending
  order, then the NaN entries. pandas before 1.2 reverses an ascending stable sort, so that
  equal values come out in the reverse of their order in \<open>d\<close>; later versions sort the
  reversed entries and reverse the result, so that equal values keep their order in \<open>d\<close>.
  \<open>keep_order\<close> says which of the two is in use.
\<close>

definition sort_values_descending :: "bool \<Rightarrow> (string \<times> fval) list \<Rightarrow> (string \<times> fval) list" where
  "sort_values_descending keep_order d =
     (let good = filter (\<lambda>e. snd e \<noteq> NaN) d;
          bad = filter (\<lambda>e. snd e = NaN) d;
          le = (\<lambda>a b. fle (snd a) (snd b))
      in (if keep_order then rev (sort_by le (rev good)) else rev (sort_by le good)) @ bad)"

text \<open>What \<open>analyze\<close> prints, as data.\<close>

datatype line =
    NoRentals string
  | NoSales string
  | Counts nat nat
  | KpiData string "fval list" "fval list"

record report =
  lines :: "line list"
  ranking :: "(string \<times> fval) list"

definition kpi_names :: "string list" where
  "kpi_names = [''price_per_sqft'', ''price_per_beds'', ''price_per_bath'']"

text \<open>The loop of \<open>analyze\<close>, lines 256-285, over the zip codes still to visit; it carries
  the dict \<open>d\<close> and the lines printed so far.\<close>

fun analyze_loop ::
  "string list \<Rightarrow> (string \<rightharpoonup> frame) \<Rightarrow> (string \<times> fval) list \<Rightarrow> line list
     \<Rightarrow> error + ((string \<times> fval) list \<times> line list)" where
  "analyze_loop [] st d out = Inr (d, out)"
| "analyze_loop (zip_code # rest) st d out =
     (let rental_df = st (''data/rentals_'' @ zip_code @ ''.csv'');
          out1 = (if rental_df = None then out @ [NoRentals zip_code] else out);
          sales_df = st (''data/sales_'' @ zip_code @ ''.csv'');
          out2 = (if sales_df = None then out1 @ [NoSales zip_code] else out1)
      in (case rental_df of
            None \<Rightarrow> analyze_loop rest st d out2
          | Some r \<Rightarrow>
              (case sales_df of
                 None \<Rightarrow> analyze_loop rest st d out2
               | Some s \<Rightarrow>
                   (case ratio r s of
                      Inl e \<Rightarrow> Inl e
                    | Inr v \<Rightarrow>
                        (case medians kpi_names r of
                           Inl e \<Rightarrow> Inl e
                         | Inr mr \<Rightarrow>
                             (case medians kpi_names s of
                                Inl e \<Rightarrow> Inl e
                              | Inr ms \<Rightarrow>
                                  analyze_loop rest st (dict_set d zip_code v)
                                    (out2 @ [Counts (nrows r) (nrows s),
                                             KpiData zip_code mr ms])))))))"

text \<open>\<open>analyze\<close>, lines 252-294. \<open>zip_codes\<close> stands for the module's global \<open>ZIP_CODES\<close>,
  \<open>st\<close> for the artifact store, which \<open>analyze\<close> only reads.\<close>

definition analyze :: "bool \<Rightarrow> string list \<Rightarrow> (string \<rightharpoonup> frame) \<Rightarrow> error + report" where
  "analyze keep_order zip_codes st =
     (case analyze_loop zip_codes st [] [] of
        Inl e \<Rightarrow> Inl e
      | Inr (d, out) \<Rightarrow> Inr \<lparr>lines = out, ranking = sort_values_descending keep_order d\<rparr>)"

section \<open>Predicates of the properties\<close>

definition cols_of :: "label \<Rightarrow> frame \<Rightarrow> (label \<times> pyval list) list" where
  "cols_of l df = filter (\<lambda>c. fst c = l) (columns df)"

text \<open>The cells of the column of that name, when there is exactly one.\<close>

definition cells :: "string \<Rightarrow> frame \<Rightarrow> pyval list" where
  "cells name df = (case getitem (LStr name) df of Inl e \<Rightarrow> [] | Inr cs \<Rightarrow> cs)"

text \<open>The table has exactly one column of that name, with a cell per row, and the column
  has a numeric dtype (floats, NaN where the value is missing, or integers of 64 bits) or
  holds \<open>None\<close> in every row.\<close>

definition numeric_column :: "string \<Rightarrow> frame \<Rightarrow> bool" where
  "numeric_column name df =
     (case cols_of (LStr name) df of
        [c] \<Rightarrow> length (snd c) = nrows df \<and>
               (numeric_dtype (snd c) \<or> list_all (\<lambda>v. v = PNone) (snd c))
      | _ \<Rightarrow> False)"

text \<open>In \<open>df'\<close> the KPI column \<open>name\<close> is there, holds for every record of \<open>df\<close> the quotient
  of its price and its divisor, and holds a non-finite value wherever the divisor is zero
  or missing.\<close>

definition kpi_column :: "string \<Rightarrow> string \<Rightarrow> frame \<Rightarrow> frame \<Rightarrow> bool" where
  "kpi_column name divisor df df' =
     (cols_of (LStr name) df' \<noteq> [] \<and>
      list_all
        (\<lambda>c. snd c = quotient (cells ''price'' df) (cells divisor df) \<and>
             length (snd c) = nrows df \<and>
             list_all (\<lambda>dq. (as_float (fst dq) = Fin 0 \<or> as_float (fst dq) = NaN)
                               \<longrightarrow> \<not> isfinite (as_float (snd dq)))
               (zip (cells divisor df) (snd c)))
        (cols_of (LStr name) df'))"

text \<open>The four columns that \<open>get_kpis\<close> reads have a numeric dtype, or are missing
  throughout.\<close>

definition kpi_input :: "frame \<Rightarrow> bool" where
  "kpi_input df =
     (numeric_column ''price'' df \<and> numeric_column ''building_size_size'' df \<and>
      numeric_column ''beds'' df \<and> numeric_column ''baths'' df)"

text \<open>The KPI values of the records of a table: price over divisor.\<close>

definition kpi_values :: "string \<Rightarrow> frame \<Rightarrow> fval list" where
  "kpi_values divisor df = map as_float (quotient (cells ''price'' df) (cells divisor df))"

text \<open>The median over the values that are not NaN.\<close>

definition median_not_nan :: "fval list \<Rightarrow> fval" where
  "median_not_nan xs = middle (filter (\<lambda>x. x \<noteq> NaN) xs)"

text \<open>Two records: a house of 240000 with 1200 square feet, 3 beds and 2 baths, and one
  of 100000 with no beds, no size and the baths missing.\<close>

definition two_houses :: frame where
  "two_houses =
     \<lparr>nrows = 2,
      columns = [(LStr ''price'', [PInt 240000, PInt 100000]),
                 (LStr ''beds'', [PInt 3, PInt 0]),
                 (LStr ''baths'', [PNum (Fin 2), PNum NaN]),
                 (LStr ''building_size_size'', [PInt 1200, PInt 0])]\<rparr>"

text \<open>Two records, the first with a price beyond 64 bits, the second without beds.\<close>

definition big_price :: frame where
  "big_price =
     \<lparr>nrows = 2,
      columns = [(LStr ''price'', [PInt (2 ^ 64), PInt 5]),
                 (LStr ''beds'', [PInt 2, PInt 0]),
                 (LStr ''baths'', [PInt 1, PInt 1]),
                 (LStr ''building_size_size'', [PInt 100, PInt 100])]\<rparr>"

text \<open>The staleness check of an acquisition passes: nothing is stored under the path, or
  what is stored was not acquired today.\<close>

definition stale :: "string \<Rightarrow> string \<Rightarrow> world \<Rightarrow> bool" where
  "stale today path w =
     (case check_run_today path w of Inl e \<Rightarrow> False | Inr run_check \<Rightarrow> run_check \<noteq> PStr today)"

text \<open>The response is no JSON, or it is a JSON object without the key \<open>properties\<close>.\<close>

definition malformed :: "response \<Rightarrow> bool" where
  "malformed data =
     (case loads data of
        None \<Rightarrow> True
      | Some v \<Rightarrow> (case v of PDict kvs \<Rightarrow> map_of kvs ''properties'' = None | _ \<Rightarrow> False))"

text \<open>The response is a JSON object whose \<open>properties\<close> is the empty array or the empty
  object.\<close>

definition empty_payload :: "response \<Rightarrow> bool" where
  "empty_payload data =
     (case loads data of
        None \<Rightarrow> False
      | Some v \<Rightarrow>
          (case v of
             PDict kvs \<Rightarrow>
               map_of kvs ''properties'' = Some (PList []) \<or>
               map_of kvs ''properties'' = Some (PDict [])
           | _ \<Rightarrow> False))"

text \<open>The artifact has a record, and \<open>run_date\<close> can be read from it for every record.\<close>

definition has_run_date :: "frame \<Rightarrow> bool" where
  "has_run_date art =
     (0 < nrows art \<and>
      (case read_column ''run_date'' art of Inl e \<Rightarrow> False | Inr cs \<Rightarrow> length cs = nrows art))"

text \<open>The worlds that acquisitions lead to from an empty artifact store.\<close>

inductive acquired :: "world \<Rightarrow> bool" where
  start: "store w = Map.empty \<Longrightarrow> acquired w"
| rental: "acquired w \<Longrightarrow>
           acquired (snd (gen_rental_data depth api today path api_key zip_code w))"
| sales: "acquired w \<Longrightarrow>
          acquired (snd (gen_sales_data depth api today path api_key zip_code w))"

text \<open>The lines that \<open>k\<close> malformed responses in a row, from request number \<open>n\<close> on, print.\<close>

definition error_lines :: "(request \<Rightarrow> nat \<Rightarrow> response) \<Rightarrow> request \<Rightarrow> nat \<Rightarrow> nat \<Rightarrow> string list" where
  "error_lines api rq n k = map (\<lambda>i. ''Error: '' @ raw (api rq (n + i))) [0..<k]"

text \<open>The upstream answers the requests number \<open>n\<close> to \<open>n + k - 1\<close> with malformed responses.\<close>

definition all_malformed :: "(request \<Rightarrow> nat \<Rightarrow> response) \<Rightarrow> request \<Rightarrow> nat \<Rightarrow> nat \<Rightarrow> bool" where
  "all_malformed api rq n k = list_all (\<lambda>i. malformed (api rq (n + i))) [0..<k]"

text \<open>Every artifact of the store has a record and a run date.\<close>

definition store_ok :: "world \<Rightarrow> bool" where
  "store_ok w = (\<forall>path art. store w path = Some art \<longrightarrow> has_run_date art)"

subsection \<open>Example inputs\<close>

text \<open>The listing of the specification's flattening example, with a lot size added.\<close>

definition listing_X :: pyval where
  "listing_X = PDict [(''address'', PDict [(''city'', PStr ''X'')]),
                      (''lot_size'', PDict [(''size'', PInt 5000)]),
                      (''building_size'', PDict [(''size'', PInt 1200)]),
                      (''price'', PInt 240000), (''beds'', PInt 3),
                      (''baths'', PInt 2)]"

definition world0 :: world where
  "world0 = \<lparr>store = Map.empty, sent = [], puts = [], printed = []\<rparr>"

definition not_json :: response where
  "not_json = \<lparr>raw = ''<html>Bad Gateway</html>'', loads = None\<rparr>"

text \<open>A well-formed response with the given listings; its text is not spelled out.\<close>

definition payload :: "pyval list \<Rightarrow> response" where
  \<open>payload listings =
     \<lparr>raw = ''{"properties": [...]}'', loads = Some (PDict [(''properties'', PList listings)])\<rparr>\<close>

text \<open>An upstream whose first two responses are no JSON and whose later ones hold one
  listing.\<close>

definition twice_malformed :: "request \<Rightarrow> nat \<Rightarrow> response" where
  "twice_malformed rq n = (if n < 2 then not_json else payload [listing_X])"

definition third_time_lucky :: "outcome \<times> world" where
  "third_time_lucky =
     gen_rental_data 3 twice_malformed ''2020-05-01'' ''data/rentals_55414.csv'' ''key'' ''55414''
       world0"

text \<open>An upstream that has no listings.\<close>

definition always_empty :: "request \<Rightarrow> nat \<Rightarrow> response" where
  "always_empty rq n = payload []"

text \<open>An upstream that always answers with the one listing.\<close>

definition one_listing :: "request \<Rightarrow> nat \<Rightarrow> response" where
  "one_listing rq n = payload [listing_X]"

text \<open>The table of that payload, and the artifacts the two acquisitions make of it.\<close>

definition table_X :: frame where
  "table_X =
     \<lparr>nrows = 1,
      columns = [(LStr ''address'', [PDict [(''city'', PStr ''X'')]]),
                 (LStr ''lot_size'', [PDict [(''size'', PInt 5000)]]),
                 (LStr ''building_size'', [PDict [(''size'', PInt 1200)]]),
                 (LStr ''price'', [PInt 240000]),
                 (LStr ''beds'', [PInt 3]),
                 (LStr ''baths'', [PInt 2])]\<rparr>"

definition rental_artifact_X :: frame where
  "rental_artifact_X =
     \<lparr>nrows = 1,
      columns = [(LStr ''price'', [PInt 240000]),
                 (LStr ''beds'', [PInt 3]),
                 (LStr ''baths'', [PInt 2]),
                 (LStr ''city'', [PStr ''X'']),
                 (LStr ''lot_size_size'', [PInt 5000]),
                 (LStr ''building_size_size'', [PInt 1200]),
                 (LStr ''run_date'', [PStr ''2020-05-01'']),
                 (LStr ''price_per_sqft'', [PNum (Fin 200)]),
                 (LStr ''price_per_beds'', [PNum (Fin 80000)]),
                 (LStr ''price_per_bath'', [PNum (Fin 120000)])]\<rparr>"

definition sales_artifact_X :: frame where
  "sales_artifact_X =
     \<lparr>nrows = 1,
      columns = [(LStr ''price'', [PInt 240000]),
                 (LStr ''beds'', [PInt 3]),
                 (LStr ''baths'', [PInt 2]),
                 (LStr ''city'', [PStr ''X'']),
                 (LStr ''building_size_size'', [PInt 1200]),
                 (LStr ''lot_size_size'', [PInt 5000]),
                 (LStr ''run_date'', [PStr ''2020-05-01'']),
                 (LStr ''price_per_sqft'', [PNum (Fin 200)]),
                 (LStr ''price_per_beds'', [PNum (Fin 80000)]),
                 (LStr ''price_per_bath'', [PNum (Fin 120000)])]\<rparr>"

text \<open>The world after a first rental acquisition.\<close>

definition world1 :: world where
  "world1 = snd (gen_rental_data 1 one_listing ''2020-05-01'' ''data/rentals_55414.csv'' ''key'' ''55414'' world0)"

text \<open>Two rental acquisitions on one day against the upstream without listings.\<close>

definition empty_first :: "outcome \<times> world" where
  "empty_first = gen_rental_data 1 always_empty ''2020-05-01'' ''data/rentals_55414.csv'' ''key'' ''55414'' world0"

definition empty_second :: "outcome \<times> world" where
  "empty_second = gen_rental_data 1 always_empty ''2020-05-01'' ''data/rentals_55414.csv'' ''key'' ''55414'' (snd empty_first)"

text \<open>The paths of the two artifacts of a zip code, as \<open>run\<close> and \<open>analyze\<close> build them.\<close>

definition rental_path :: "string \<Rightarrow> string" where
  "rental_path zip_code = ''data/rentals_'' @ zip_code @ ''.csv''"

definition sales_path :: "string \<Rightarrow> string" where
  "sales_path zip_code = ''data/sales_'' @ zip_code @ ''.csv''"

text \<open>Both datasets of the zip code are in the store.\<close>

definition has_both :: "(string \<rightharpoonup> frame) \<Rightarrow> string \<Rightarrow> bool" where
  "has_both st zip_code = (st (rental_path zip_code) \<noteq> None \<and> st (sales_path zip_code) \<noteq> None)"

text \<open>The ratio of a zip code: the median rental price per square foot over the median
  sale price per square foot, when both datasets are in the store and both medians can be
  taken.\<close>

definition zip_ratio :: "(string \<rightharpoonup> frame) \<Rightarrow> string \<Rightarrow> fval option" where
  "zip_ratio st zip_code =
     (case st (rental_path zip_code) of
        None \<Rightarrow> None
      | Some r \<Rightarrow>
          (case st (sales_path zip_code) of
             None \<Rightarrow> None
           | Some s \<Rightarrow> (case ratio r s of Inl e \<Rightarrow> None | Inr v \<Rightarrow> Some v)))"

text \<open>The zip codes with both datasets whose ratio is \<open>v\<close>, in the order in which
  \<open>zip_codes\<close> lists them first.\<close>

definition tied :: "(string \<rightharpoonup> frame) \<Rightarrow> string list \<Rightarrow> fval \<Rightarrow> string list" where
  "tied st zip_codes v =
     filter (\<lambda>z. zip_ratio st z = Some v) (first_seen (filter (has_both st) zip_codes))"

text \<open>The entries that are not NaN come first, in descending order of their value; the
  NaN entries follow.\<close>

definition descending_nan_last :: "(string \<times> fval) list \<Rightarrow> bool" where
  "descending_nan_last xs =
     (xs = filter (\<lambda>e. snd e \<noteq> NaN) xs @ filter (\<lambda>e. snd e = NaN) xs \<and>
      sorted_wrt (\<lambda>a b. fle (snd b) (snd a)) (filter (\<lambda>e. snd e \<noteq> NaN) xs))"

text \<open>An order is total, and transitive, on a set of values.\<close>

definition le_total_on :: "'a set \<Rightarrow> ('a \<Rightarrow> 'a \<Rightarrow> bool) \<Rightarrow> bool" where
  "le_total_on A le = (\<forall>a\<in>A. \<forall>b\<in>A. le a b \<or> le b a)"

definition le_trans_on :: "'a set \<Rightarrow> ('a \<Rightarrow> 'a \<Rightarrow> bool) \<Rightarrow> bool" where
  "le_trans_on A le = (\<forall>a\<in>A. \<forall>b\<in>A. \<forall>c\<in>A. le a b \<longrightarrow> le b c \<longrightarrow> le a c)"

text \<open>The median over the finite values only, as the specification words it.\<close>

definition finite_median :: "fval list \<Rightarrow> fval" where
  "finite_median xs = middle (filter isfinite xs)"

text \<open>An artifact of one record with the given price per square foot.\<close>

definition kpi_artifact :: "fval \<Rightarrow> frame" where
  "kpi_artifact x =
     \<lparr>nrows = 1,
      columns = [(LStr ''run_date'', [PStr ''2020-05-01'']),
                 (LStr ''price_per_sqft'', [PNum x]),
                 (LStr ''price_per_beds'', [PNum (Fin 100000)]),
                 (LStr ''price_per_bath'', [PNum (Fin 150000)])]\<rparr>"

text \<open>A store with both datasets for the zip codes A and B and the sale dataset alone for
  C; the ratios are 2 for A and 3/2 for B.\<close>

definition store_AB :: "string \<rightharpoonup> frame" where
  "store_AB =
     [''data/rentals_A.csv'' \<mapsto> kpi_artifact (Fin 2), ''data/sales_A.csv'' \<mapsto> kpi_artifact (Fin 1),
      ''data/rentals_B.csv'' \<mapsto> kpi_artifact (Fin (3 / 2)), ''data/sales_B.csv'' \<mapsto> kpi_artifact (Fin 1),
      ''data/sales_C.csv'' \<mapsto> kpi_artifact (Fin 1)]"

text \<open>A store in which every zip code has both datasets and the same ratio.\<close>

definition tie_store :: "string \<rightharpoonup> frame" where
  "tie_store = (\<lambda>path. Some (kpi_artifact (Fin 1)))"

text \<open>Three houses of 100, 200 and 300, the first without beds and without floor space.\<close>

definition three_houses :: frame where
  "three_houses =
     \<lparr>nrows = 3,
      columns = [(LStr ''price'', [PNum (Fin 100), PNum (Fin 200), PNum (Fin 300)]),
                 (LStr ''beds'', [PNum (Fin 0), PNum (Fin 1), PNum (Fin 1)]),
                 (LStr ''baths'', [PNum (Fin 1), PNum (Fin 1), PNum (Fin 1)]),
                 (LStr ''building_size_size'', [PNum (Fin 0), PNum (Fin 100), PNum (Fin 100)])]\<rparr>"

definition three_houses_kpis :: frame where
  "three_houses_kpis =
     \<lparr>nrows = 3,
      columns = [(LStr ''price'', [PNum (Fin 100), PNum (Fin 200), PNum (Fin 300)]),
                 (LStr ''beds'', [PNum (Fin 0), PNum (Fin 1), PNum (Fin 1)]),
                 (LStr ''baths'', [PNum (Fin 1), PNum (Fin 1), PNum (Fin 1)]),
                 (LStr ''building_size_size'', [PNum (Fin 0), PNum (Fin 100), PNum (Fin 100)]),
                 (LStr ''price_per_sqft'', [PNum PInf, PNum (Fin 2), PNum (Fin 3)]),
                 (LStr ''price_per_beds'', [PNum PInf, PNum (Fin 200), PNum (Fin 300)]),
                 (LStr ''price_per_bath'', [PNum (Fin 100), PNum (Fin 200), PNum (Fin 300)])]\<rparr>"

text \<open>What \<open>analyze\<close> reports on that store for the zip codes B, C, A.\<close>

definition rep_AB :: report where
  "rep_AB =
     \<lparr>lines = [Counts 1 1, KpiData ''B'' [Fin (3 / 2), Fin 100000, Fin 150000] [Fin 1, Fin 100000, Fin 150000],
               NoRentals ''C'',
               Counts 1 1, KpiData ''A'' [Fin 2, Fin 100000, Fin 150000] [Fin 1, Fin 100000, Fin 150000]],
      ranking = [(''A'', Fin 2), (''B'', Fin (3 / 2))]\<rparr>"

text \<open>Two tables have the same records and the same columns, each label with its cells
  as often in the one as in the other, in whatever order.\<close>

definition same_table :: "frame \<Rightarrow> frame \<Rightarrow> bool" where
  "same_table f g = (nrows f = nrows g \<and> mset (columns f) = mset (columns g))"

text \<open>The label is a string that begins with \<open>p\<close>.\<close>

definition prefixed :: "string \<Rightarrow> label \<Rightarrow> bool" where
  "prefixed p l = (case l of LStr s \<Rightarrow> take (length p) s = p | LInt n \<Rightarrow> False)"

text \<open>
  Two tables have the same records and the same columns in the same order, but for two
  adjacent blocks of columns that stand in the one order in \<open>f\<close> and in the other in \<open>g\<close>:
  the block \<open>L\<close>, whose labels begin with \<open>lot_size_\<close>, and the block \<open>B\<close>, whose labels
  begin with \<open>building_size_\<close>.
\<close>

definition swapped_by ::
  "(label \<times> pyval list) list \<Rightarrow> (label \<times> pyval list) list \<Rightarrow> frame \<Rightarrow> frame \<Rightarrow> bool" where
  "swapped_by L B f g =
     (nrows f = nrows g \<and>
      list_all (\<lambda>c. prefixed ''lot_size_'' (fst c)) L \<and>
      list_all (\<lambda>c. prefixed ''building_size_'' (fst c)) B \<and>
      (\<exists>P K. columns f = P @ L @ B @ K \<and> columns g = P @ B @ L @ K))"


text \<open>
  What a rental acquisition that leads from \<open>w\<close> to \<open>wr\<close> and a sale acquisition that leads
  from \<open>w'\<close> to \<open>ws\<close> have persisted, under the paths \<open>rp\<close> and \<open>sp\<close>: both nothing, or both
  one dataset, and then the two datasets have the same records and the same columns, in the
  same order but for the block of the \<open>lot_size_\<close> columns and the block of the
  \<open>building_size_\<close> columns, which are exchanged; the orders differ unless one of the
  blocks is empty.
\<close>

definition persisted_alike :: "string \<Rightarrow> string \<Rightarrow> world \<Rightarrow> world \<Rightarrow> world \<Rightarrow> world \<Rightarrow> bool" where
  "persisted_alike rp sp w w' wr ws =
     ((store wr = store w \<and> puts wr = puts w \<and> store ws = store w' \<and> puts ws = puts w') \<or>
      (\<exists>f g L B.
         store wr = (store w)(rp \<mapsto> f) \<and> puts wr = puts w @ [rp] \<and>
         store ws = (store w')(sp \<mapsto> g) \<and> puts ws = puts w' @ [sp] \<and>
         same_table f g \<and> swapped_by L B f g \<and>
         (columns f = columns g) = (L = [] \<or> B = [])))"


text \<open>The columns that one turn of the loop of \<open>expand\<close> appends for a nested column.\<close>

definition block :: "string \<Rightarrow> pyval list \<Rightarrow> (label \<times> pyval list) list" where
  "block col xs = columns (if col \<in> set [''address''] then apply_Series xs
                           else add_prefix (col @ ''_'') (apply_Series xs))"


subsection \<open>Predicates of the normalization\<close>

text \<open>The column that \<open>pd.DataFrame\<close> makes of a key of the listings.\<close>

definition top_column :: "(string \<times> pyval) list list \<Rightarrow> string \<Rightarrow> pyval list" where
  "top_column ds k = maybe_convert_objects (map (\<lambda>d. lookup_or_nan d k) ds)"

text \<open>The keys of the listings, in the order of the columns.\<close>

definition record_keys :: "(string \<times> pyval) list list \<Rightarrow> string list" where
  "record_keys ds = first_seen (concat (map (map fst) ds))"

text \<open>The names of the sub-fields that the listings have in the nested object \<open>col\<close>.\<close>

definition sub_keys :: "(string \<times> pyval) list list \<Rightarrow> string \<Rightarrow> string list" where
  "sub_keys ds col =
     concat (map (\<lambda>d. case map_of d col of Some (PDict sub) \<Rightarrow> map fst sub | _ \<Rightarrow> []) ds)"

text \<open>The table has a column of that label whose cell in row \<open>i\<close> is the value, or the
  float of the value when pandas has made the column a float column (the float of an
  integer, NaN for \<open>None\<close>).\<close>

definition has_cell :: "frame \<Rightarrow> label \<Rightarrow> nat \<Rightarrow> pyval \<Rightarrow> bool" where
  "has_cell df l i v =
     list_ex (\<lambda>c. fst c = l \<and> (snd c ! i = v \<or> snd c ! i = to_float64 v)) (columns df)"

text \<open>The columns of the fields that are not nested, as \<open>expand\<close> leaves them.\<close>

definition flat_columns :: "(string \<times> pyval) list list \<Rightarrow> (label \<times> pyval list) list" where
  "flat_columns ds = map (\<lambda>k. (LStr k, top_column ds k))
      (filter (\<lambda>k. k \<noteq> ''address'' \<and> k \<noteq> ''lot_size'' \<and> k \<noteq> ''building_size'') (record_keys ds))"

text \<open>The record of a row: the label and the cell of every column.\<close>

definition record_of :: "frame \<Rightarrow> nat \<Rightarrow> (label \<times> pyval) list" where
  "record_of df i = map (\<lambda>c. (fst c, snd c ! i)) (columns df)"

text \<open>The listing of the specification's flattening example as it stands, a payload of it
  and of the listing with a lot size, and an upstream that answers with it alone.\<close>

definition spec_listing :: pyval where
  "spec_listing = PDict [(''address'', PDict [(''city'', PStr ''X'')]),
                         (''building_size'', PDict [(''size'', PInt 1200)]),
                         (''price'', PInt 240000), (''beds'', PInt 3),
                         (''baths'', PInt 2)]"

definition two_listings :: "(string \<times> pyval) list list" where
  "two_listings =
     [[(''address'', PDict [(''city'', PStr ''X'')]),
       (''building_size'', PDict [(''size'', PInt 1200)]),
       (''price'', PInt 240000), (''beds'', PInt 3), (''baths'', PInt 2)],
      [(''address'', PDict [(''city'', PStr ''X'')]),
       (''lot_size'', PDict [(''size'', PInt 5000)]),
       (''building_size'', PDict [(''size'', PInt 1200)]),
       (''price'', PInt 240000), (''beds'', PInt 3), (''baths'', PInt 2)]]"

definition spec_only :: "request \<Rightarrow> nat \<Rightarrow> response" where
  "spec_only rq n = payload [spec_listing]"

definition spec_only_run :: "outcome \<times> world" where
  "spec_only_run =
     gen_rental_data 1 spec_only ''2020-05-01'' ''data/rentals_55414.csv'' ''key'' ''55414'' world0"

section \<open>Columns and assignment\<close>

lemma fdiv_zero_divisor: "y = Fin 0 \<or> y = NaN \<Longrightarrow> \<not> isfinite (fdiv x y)"
  by (cases x; cases y) auto

lemma filter_relabel_other:
  "l \<noteq> l' \<Longrightarrow>
   filter (\<lambda>c. fst c = l) (map (\<lambda>c. if fst c = l' then (l', q) else c) cs)
     = filter (\<lambda>c. fst c = l) cs"
  by (induction cs) auto

lemma filter_relabel_same:
  "filter (\<lambda>c. fst c = l) (map (\<lambda>c. if fst c = l then (l, q) else c) cs)
     = map (\<lambda>c. (l, q)) (filter (\<lambda>c. fst c = l) cs)"
  by (induction cs) auto

lemma filter_label_empty: "(filter (\<lambda>c. fst c = l) cs = []) = (l \<notin> fst ` set cs)"
  by (auto simp: filter_empty_conv)

lemma cols_of_setitem_other: "l \<noteq> l' \<Longrightarrow> cols_of l (setitem l' q df) = cols_of l df"
  by (simp add: cols_of_def setitem_def filter_relabel_other)

lemma cols_of_setitem_same:
  "cols_of l (setitem l q df)
     = (if cols_of l df = [] then [(l, q)] else map (\<lambda>c. (l, q)) (cols_of l df))"
  by (simp add: cols_of_def setitem_def filter_relabel_same filter_label_empty)

lemma nrows_setitem: "nrows (setitem l q df) = nrows df"
  by (simp add: setitem_def)

lemma getitem_cols_of:
  "getitem l df =
     (case cols_of l df of [] \<Rightarrow> Inl KeyError | [c] \<Rightarrow> Inr (snd c) | c # c' # cs \<Rightarrow> Inl Unmodelled)"
  by (simp add: getitem_def cols_of_def)

lemma numeric_column_getitem:
  "numeric_column name df \<Longrightarrow>
   getitem (LStr name) df = Inr (cells name df) \<and>
   (numeric_dtype (cells name df) \<or> list_all (\<lambda>v. v = PNone) (cells name df)) \<and>
   length (cells name df) = nrows df"
  by (auto simp: numeric_column_def cells_def getitem_cols_of split: list.splits)

lemma numeric_column_setitem:
  "numeric_column name df \<Longrightarrow> name \<noteq> m \<Longrightarrow> numeric_column name (setitem (LStr m) q df)"
  by (auto simp: numeric_column_def cols_of_setitem_other nrows_setitem split: list.splits)

lemma masked_all_na:
  "list_all (\<lambda>p. is_na (fst p) \<or> is_na (snd p)) ps \<Longrightarrow>
   masked_arith_op ps = Inr (map (\<lambda>p. PNum NaN) ps)"
  by (induction ps) auto

lemma fdiv_NaN_right: "fdiv x NaN = NaN"
  by (cases x) auto

lemma quotient_none_left:
  "list_all (\<lambda>v. v = PNone) xs \<Longrightarrow> quotient xs ys = map (\<lambda>p. PNum NaN) (zip xs ys)"
  unfolding quotient_def list_all_iff
  by (rule map_cong[OF refl]) (fastforce dest: set_zip_leftD)

lemma quotient_none_right:
  "list_all (\<lambda>v. v = PNone) ys \<Longrightarrow> quotient xs ys = map (\<lambda>p. PNum NaN) (zip xs ys)"
  unfolding quotient_def list_all_iff
  by (rule map_cong[OF refl]) (fastforce simp: fdiv_NaN_right dest: set_zip_rightD)

lemma numeric_fits:
  "numeric_dtype cs \<Longrightarrow> \<not> list_all is_float cs \<Longrightarrow> list_all fits_double cs"
proof -
  have a: "in_int64 c \<Longrightarrow> fits_double c" for c
  proof (cases c)
    case (PInt i)
    assume "in_int64 c"
    then have "- (2 ^ 63) \<le> i" "i < 2 ^ 63" using PInt by auto
    moreover have "(2::int) ^ 63 < 2 ^ 1023" by (rule power_strict_increasing) simp_all
    ultimately show ?thesis using PInt by simp
  qed auto
  have b: "in_uint64 c \<Longrightarrow> fits_double c" for c
  proof (cases c)
    case (PInt i)
    assume "in_uint64 c"
    then have "0 \<le> i" "i < 2 ^ 64" using PInt by auto
    moreover have "(2::int) ^ 64 < 2 ^ 1023" by (rule power_strict_increasing) simp_all
    moreover have "- ((2::int) ^ 1023) < 0" by simp
    ultimately show ?thesis using PInt by simp
  qed auto
  assume "numeric_dtype cs" "\<not> list_all is_float cs"
  then show ?thesis using a b by (auto simp: numeric_dtype_def list_all_iff)
qed

text \<open>A column that is missing throughout makes every quotient NaN: the first pair of
  cells raises TypeError, and \<open>masked_arith_op\<close> finds no pair to divide.\<close>

lemma object_truediv_none:
  assumes "length xs = length ys" and "xs \<noteq> []"
    and "list_all (\<lambda>v. v = PNone) xs \<or> list_all (\<lambda>v. v = PNone) ys"
  shows "object_truediv xs ys = Inr (quotient xs ys)"
proof -
  from assms(1,2) obtain x xs' y ys' where c: "xs = x # xs'" "ys = y # ys'"
    by (cases xs; cases ys) auto
  with assms(3) have "x = PNone \<or> y = PNone" by auto
  then have d: "divide_all (zip xs ys) = Inl TypeError"
    by (auto simp: c py_truediv_def)
  from assms(3) have "list_all (\<lambda>p. is_na (fst p) \<or> is_na (snd p)) (zip xs ys)"
    unfolding list_all_iff by (fastforce dest: set_zip_leftD set_zip_rightD)
  from masked_all_na[OF this] assms(3) show ?thesis
    by (auto simp: object_truediv_def d quotient_none_left quotient_none_right)
qed

lemma truediv_numeric:
  assumes "length xs = length ys"
    and "numeric_dtype xs \<or> list_all (\<lambda>v. v = PNone) xs"
    and "numeric_dtype ys \<or> list_all (\<lambda>v. v = PNone) ys"
  shows "truediv xs ys = Inr (quotient xs ys)"
proof (cases "numeric_dtype xs \<and> numeric_dtype ys")
  case True
  then show ?thesis by (simp add: truediv_def)
next
  case False
  with assms(2,3) have n: "list_all (\<lambda>v. v = PNone) xs \<or> list_all (\<lambda>v. v = PNone) ys" by auto
  have e: "xs \<noteq> []" using False assms(1) by (auto simp: numeric_dtype_def)
  have "numeric_dtype xs \<or> object_column xs" "numeric_dtype ys \<or> object_column ys"
    using assms(2,3) by (auto simp: object_column_def)
  with False object_truediv_none[OF assms(1) e n] show ?thesis by (auto simp: truediv_def)
qed

lemma cells_setitem: "name \<noteq> m \<Longrightarrow> cells name (setitem (LStr m) q df) = cells name df"
  by (simp add: cells_def getitem_cols_of cols_of_setitem_other)

lemma assign_quotient_numeric:
  "numeric_column a df \<Longrightarrow> numeric_column b df \<Longrightarrow>
   assign_quotient name a b df = Inr (setitem (LStr name) (quotient (cells a df) (cells b df)) df)"
  by (simp add: assign_quotient_def numeric_column_getitem truediv_numeric)

lemma quotient_nonfinite:
  "list_all (\<lambda>dq. (as_float (fst dq) = Fin 0 \<or> as_float (fst dq) = NaN)
                    \<longrightarrow> \<not> isfinite (as_float (snd dq)))
     (zip ys (quotient xs ys))"
  unfolding quotient_def list_all_iff
  by (auto simp: in_set_zip fdiv_zero_divisor)

lemma length_quotient: "length (quotient xs ys) = min (length xs) (length ys)"
  by (simp add: quotient_def)

lemma kpi_column_setitem_same:
  "numeric_column ''price'' df0 \<Longrightarrow> numeric_column divisor df0 \<Longrightarrow>
   kpi_column name divisor df0
     (setitem (LStr name) (quotient (cells ''price'' df0) (cells divisor df0)) df)"
  using quotient_nonfinite[of "cells divisor df0" "cells ''price'' df0"]
  by (auto simp: kpi_column_def cols_of_setitem_same list_all_iff length_quotient
           dest!: numeric_column_getitem)

lemma kpi_column_setitem_other:
  "kpi_column name divisor df0 df \<Longrightarrow> name \<noteq> m \<Longrightarrow>
   kpi_column name divisor df0 (setitem (LStr m) q df)"
  by (simp add: kpi_column_def cols_of_setitem_other)

section \<open>Reading the run date back\<close>

lemma str_nat_digits: "set (str_nat n) \<subseteq> set ''0123456789''"
proof (induction n rule: str_nat.induct)
  case (1 n)
  have d: "\<And>k. k < 10 \<Longrightarrow> ''0123456789'' ! k \<in> set ''0123456789''"
    by (rule nth_mem) simp
  show ?case
  proof (cases "n < 10")
    case True
    then show ?thesis using d[of n] by (subst str_nat.simps) (simp del: str_nat.simps)
  next
    case False
    then show ?thesis using 1 d[of "n mod 10"] by (subst str_nat.simps) (simp del: str_nat.simps)
  qed
qed

lemma str_label_run_date: "(str_label l = ''run_date'') = (l = LStr ''run_date'')"
proof (cases l)
  case (LInt n)
  have "CHR ''r'' \<notin> set (str_nat n)" using str_nat_digits[of n] by auto
  then have "str_nat n \<noteq> ''run_date''" by auto
  then show ?thesis using LInt by simp
qed simp

lemma read_column_setitem_other:
  "name \<noteq> m \<Longrightarrow> read_column name (setitem (LStr m) q df) = read_column name df"
proof -
  assume n: "name \<noteq> m"
  have "filter (\<lambda>c. str_label (fst c) = name) (map (\<lambda>c. if fst c = LStr m then (LStr m, q) else c) cs)
        = filter (\<lambda>c. str_label (fst c) = name) cs" for cs
    using n by (induction cs) auto
  then show ?thesis using n by (simp add: read_column_def setitem_def)
qed

lemma read_column_run_date_set:
  "read_column ''run_date'' (setitem (LStr ''run_date'') q df) = Inr q"
proof -
  have a: "filter (\<lambda>c. str_label (fst c) = ''run_date'') (map (\<lambda>c. if fst c = LStr ''run_date'' then (LStr ''run_date'', q) else c) cs)
        = map (\<lambda>c. (LStr ''run_date'', q)) (filter (\<lambda>c. fst c = LStr ''run_date'') cs)" for cs
    by (induction cs) (auto simp: str_label_run_date)
  have b: "filter (\<lambda>c. str_label (fst c) = ''run_date'') cs = []" if "LStr ''run_date'' \<notin> fst ` set cs" for cs
    using that by (induction cs) (auto simp: str_label_run_date)
  show ?thesis
    by (auto simp: read_column_def setitem_def a b filter_label_empty[symmetric] split: list.splits)
qed

lemma assign_quotient_Inr:
  "assign_quotient name a b df = Inr df' \<Longrightarrow> \<exists>q. df' = setitem (LStr name) q df"
  by (auto simp: assign_quotient_def split: sum.splits)

lemma get_kpis_Inr:
  "get_kpis df = Inr df' \<Longrightarrow>
   \<exists>q1 q2 q3. df' = setitem (LStr ''price_per_bath'') q3 (setitem (LStr ''price_per_beds'') q2
                        (setitem (LStr ''price_per_sqft'') q1 df))"
  by (auto simp: get_kpis_def split: sum.splits dest!: assign_quotient_Inr)

lemma nrows_expand: "expand cols df = Inr df1 \<Longrightarrow> nrows df1 = nrows df"
proof (induction cols arbitrary: df)
  case (Cons col cols)
  then show ?case
    by (auto simp: drop_axis1_def concat_axis1_def split: sum.splits if_splits)
qed simp

lemma tabulate_run_date:
  assumes "tabulate cols today df = Inr df'"
  shows "nrows df' = nrows df \<and> read_column ''run_date'' df' = Inr (replicate (nrows df) (PStr today))"
proof -
  from assms obtain df1 where e: "expand cols df = Inr df1"
    and k: "get_kpis (setitem (LStr ''run_date'') (replicate (nrows df1) (PStr today)) df1) = Inr df'"
    by (auto simp: tabulate_def split: sum.splits)
  from get_kpis_Inr[OF k] nrows_expand[OF e] show ?thesis
    by (auto simp: read_column_setitem_other read_column_run_date_set nrows_setitem)
qed

lemma tabulate_has_run_date:
  "tabulate cols today df = Inr df' \<Longrightarrow> nrows df \<noteq> 0 \<Longrightarrow> has_run_date df'"
  using tabulate_run_date[of cols today df df'] by (simp add: has_run_date_def)

section \<open>KPI calculation is total\<close>

text \<open>
  C6. On every table in which each of the four columns \<open>price\<close>, \<open>building_size_size\<close>,
  \<open>beds\<close> and \<open>baths\<close> has a numeric dtype (floats, NaN where a value is missing, or
  integers of 64 bits) or is missing in every record, zeros allowed, \<open>get_kpis\<close> returns a
  table and raises nothing. The table has the same records; each KPI column holds the
  quotient of price and divisor, which is a non-finite value for every record whose
  divisor is zero or missing.
\<close>

theorem get_kpis_total:
  assumes "numeric_column ''price'' df" and "numeric_column ''building_size_size'' df"
    and "numeric_column ''beds'' df" and "numeric_column ''baths'' df"
  shows "\<exists>df'. get_kpis df = Inr df' \<and> nrows df' = nrows df \<and>
           kpi_column ''price_per_sqft'' ''building_size_size'' df df' \<and>
           kpi_column ''price_per_beds'' ''beds'' df df' \<and>
           kpi_column ''price_per_bath'' ''baths'' df df'"
  using assms
  by (simp add: get_kpis_def assign_quotient_numeric numeric_column_setitem cells_setitem
      nrows_setitem kpi_column_setitem_same kpi_column_setitem_other)

theorem get_kpis_total_witness:
  "numeric_column ''price'' two_houses \<and> numeric_column ''building_size_size'' two_houses \<and>
   numeric_column ''beds'' two_houses \<and> numeric_column ''baths'' two_houses \<and>
   (\<exists>df'. get_kpis two_houses = Inr df' \<and> nrows df' = nrows two_houses \<and>
      kpi_column ''price_per_sqft'' ''building_size_size'' two_houses df' \<and>
      kpi_column ''price_per_beds'' ''beds'' two_houses df' \<and>
      kpi_column ''price_per_bath'' ''baths'' two_houses df')"
proof -
  have h: "numeric_column ''price'' two_houses" "numeric_column ''building_size_size'' two_houses"
    "numeric_column ''beds'' two_houses" "numeric_column ''baths'' two_houses"
    by (simp_all add: numeric_column_def numeric_dtype_def cols_of_def two_houses_def)
  from get_kpis_total [OF h] h show ?thesis by blast
qed

text \<open>
  A column of numbers need not have a numeric dtype: an integer beyond 64 bits makes pandas
  keep the column as Python objects, which Python divides, and Python raises on a zero
  divisor. With the prices \<open>2 ^ 64\<close> and 5 and the beds 2 and 0, \<open>get_kpis\<close> raises
  ZeroDivisionError.
\<close>

theorem big_price_raises:
  "list_all is_int (cells ''price'' big_price) \<and> list_all is_int (cells ''beds'' big_price) \<and>
   list_all is_int (cells ''baths'' big_price) \<and>
   list_all is_int (cells ''building_size_size'' big_price) \<and>
   get_kpis big_price = Inl ZeroDivisionError"
  by (simp add: big_price_def cells_def getitem_def get_kpis_def assign_quotient_def setitem_def
      truediv_def numeric_dtype_def object_column_def object_truediv_def py_truediv_def
      quotient_def)

section \<open>Acquisition: the world after a step\<close>

lemma store_print [simp]: "store (print s w) = store w" "puts (print s w) = puts w"
  "sent (print s w) = sent w" "printed (print s w) = printed w @ [s]"
  by (simp_all add: print_def)

lemma send_simps [simp]: "fst (send api rq w) = api rq (length (sent w))"
  "store (snd (send api rq w)) = store w" "puts (snd (send api rq w)) = puts w"
  "sent (snd (send api rq w)) = sent w @ [rq]" "printed (snd (send api rq w)) = printed w"
  by (simp_all add: send_def)

lemma put_simps [simp]: "store (put path df w) = (store w)(path \<mapsto> df)" "puts (put path df w) = puts w @ [path]"
  "sent (put path df w) = sent w" "printed (put path df w) = printed w"
  by (simp_all add: put_def)


lemma stale_store: "stale today path w \<Longrightarrow> store w' = store w \<Longrightarrow> stale today path w'"
  by (simp add: stale_def check_run_today_def)

lemma malformed_caught:
  "malformed data \<Longrightarrow> properties_frame data = Inl KeyError \<or> properties_frame data = Inl JSONDecodeError"
  by (auto simp: malformed_def properties_frame_def split: option.splits pyval.splits)

lemma empty_payload_frame: "empty_payload data \<Longrightarrow> properties_frame data = Inr empty_frame"
  by (auto simp: empty_payload_def properties_frame_def frame_of_records_def empty_frame_def
        first_seen_def split: option.splits pyval.splits)

lemma gen_rental_data_malformed:
  "stale today path w \<Longrightarrow> malformed (api (rental_request api_key zip_code) (length (sent w))) \<Longrightarrow>
   gen_rental_data (Suc depth) api today path api_key zip_code w =
   gen_rental_data depth api today path api_key zip_code
     (print (''Error: '' @ raw (api (rental_request api_key zip_code) (length (sent w))))
        (snd (send api (rental_request api_key zip_code) w)))"
proof -
  assume st: "stale today path w"
    and m: "malformed (api (rental_request api_key zip_code) (length (sent w)))"
  from st obtain v where c: "check_run_today path w = Inr v" "v \<noteq> PStr today"
    by (auto simp: stale_def split: sum.splits)
  from malformed_caught[OF m] c show ?thesis
    by (auto simp: get_rental_data_def send_def)
qed

lemma gen_sales_data_malformed:
  "stale today path w \<Longrightarrow> malformed (api (sales_request api_key zip_code) (length (sent w))) \<Longrightarrow>
   gen_sales_data (Suc depth) api today path api_key zip_code w =
   gen_sales_data depth api today path api_key zip_code
     (print (''Error: '' @ raw (api (sales_request api_key zip_code) (length (sent w))))
        (snd (send api (sales_request api_key zip_code) w)))"
proof -
  assume st: "stale today path w"
    and m: "malformed (api (sales_request api_key zip_code) (length (sent w)))"
  from st obtain v where c: "check_run_today path w = Inr v" "v \<noteq> PStr today"
    by (auto simp: stale_def split: sum.splits)
  from malformed_caught[OF m] c show ?thesis
    by (auto simp: get_sales_data_def send_def)
qed
lemma error_lines_Suc: "error_lines api rq n (Suc k) = (''Error: '' @ raw (api rq n)) # error_lines api rq (Suc n) k"
proof -
  have "[0..<Suc k] = 0 # map Suc [0..<k]"
    by (simp add: upt_conv_Cons map_Suc_upt del: upt_Suc)
  then show ?thesis by (simp add: error_lines_def comp_def del: upt_Suc)
qed

lemma rental_retries:
  "stale today path w \<Longrightarrow>
   \<forall>i<k. malformed (api (rental_request api_key zip_code) (length (sent w) + i)) \<Longrightarrow>
   \<exists>w'. gen_rental_data (k + depth) api today path api_key zip_code w
          = gen_rental_data depth api today path api_key zip_code w'
      \<and> store w' = store w \<and> puts w' = puts w
      \<and> sent w' = sent w @ replicate k (rental_request api_key zip_code)
      \<and> printed w' = printed w @ error_lines api (rental_request api_key zip_code) (length (sent w)) k"
proof (induction k arbitrary: w)
  case 0
  then show ?case by (intro exI[of _ w]) (simp add: error_lines_def)
next
  case (Suc k)
  let ?rq = "rental_request api_key zip_code"
  let ?w1 = "print (''Error: '' @ raw (api ?rq (length (sent w)))) (snd (send api ?rq w))"
  from Suc.prems have m0: "malformed (api ?rq (length (sent w)))" by force
  have st: "stale today path ?w1" by (rule stale_store[OF Suc.prems(1)]) simp
  have ms: "\<forall>i<k. malformed (api ?rq (length (sent ?w1) + i))"
    using Suc.prems(2) by auto
  from Suc.IH[OF st ms] obtain w' where w': "gen_rental_data (k + depth) api today path api_key zip_code ?w1
          = gen_rental_data depth api today path api_key zip_code w'"
      "store w' = store ?w1" "puts w' = puts ?w1"
      "sent w' = sent ?w1 @ replicate k ?rq"
      "printed w' = printed ?w1 @ error_lines api ?rq (length (sent ?w1)) k"
    by blast
  have "gen_rental_data (Suc k + depth) api today path api_key zip_code w
        = gen_rental_data (k + depth) api today path api_key zip_code ?w1"
    using gen_rental_data_malformed[of today path w api api_key zip_code "k + depth"] Suc.prems(1) m0
    by simp
  with w' show ?case
    apply (intro exI[of _ w'])
    apply (simp only: error_lines_Suc)
    apply (simp add: replicate_app_Cons_same)
    done
qed
lemma gen_rental_data_cases:
  "gen_rental_data (Suc depth) api today path api_key zip_code w = r \<Longrightarrow>
   (\<exists>e. r = (Raised e, w)) \<or>
   r = (Returned, print ''Data already collected today'' w) \<or>
   r = gen_rental_data depth api today path api_key zip_code
         (print (''Error: '' @ raw (api (rental_request api_key zip_code) (length (sent w))))
            (snd (send api (rental_request api_key zip_code) w))) \<or>
   (\<exists>e. r = (Raised e, snd (send api (rental_request api_key zip_code) w))) \<or>
   r = (Returned, print (''No Rentals for: '' @ zip_code) (snd (send api (rental_request api_key zip_code) w))) \<or>
   (\<exists>df df'. nrows df \<noteq> 0 \<and> tabulate [''address'', ''lot_size'', ''building_size''] today df = Inr df' \<and>
      r = (Returned, print ''CSV written'' (put path df' (snd (send api (rental_request api_key zip_code) w)))))"
  by (auto simp: get_rental_data_def send_def split: sum.splits if_splits)

lemma gen_sales_data_cases:
  "gen_sales_data (Suc depth) api today path api_key zip_code w = r \<Longrightarrow>
   (\<exists>e. r = (Raised e, w)) \<or>
   r = (Returned, print ''Data already collected today'' w) \<or>
   r = gen_sales_data depth api today path api_key zip_code
         (print (''Error: '' @ raw (api (sales_request api_key zip_code) (length (sent w))))
            (snd (send api (sales_request api_key zip_code) w))) \<or>
   (\<exists>e. r = (Raised e, snd (send api (sales_request api_key zip_code) w))) \<or>
   r = (Returned, print (''No properties for sale in: '' @ zip_code) (snd (send api (sales_request api_key zip_code) w))) \<or>
   (\<exists>df df'. nrows df \<noteq> 0 \<and> tabulate [''address'', ''building_size'', ''lot_size''] today df = Inr df' \<and>
      r = (Returned, print ''CSV written'' (put path df' (snd (send api (sales_request api_key zip_code) w)))))"
  by (auto simp: get_sales_data_def send_def split: sum.splits if_splits)

lemma store_ok_same: "store_ok w \<Longrightarrow> store w' = store w \<Longrightarrow> store_ok w'"
  by (simp add: store_ok_def)

lemma store_ok_put: "store_ok w \<Longrightarrow> has_run_date df \<Longrightarrow> store_ok (print s (put path df w'))" if "store w' = store w"
  using that by (simp add: store_ok_def)

lemma gen_rental_data_store_ok:
  "store_ok w \<Longrightarrow> store_ok (snd (gen_rental_data depth api today path api_key zip_code w))"
proof (induction depth arbitrary: w)
  case 0
  then show ?case by simp
next
  case (Suc depth)
  let ?rq = "rental_request api_key zip_code"
  let ?w1 = "snd (send api ?rq w)"
  have s1: "store_ok ?w1" by (rule store_ok_same[OF Suc.prems]) simp
  have s2: "store_ok (print s ?w1)" for s by (rule store_ok_same[OF Suc.prems]) simp
  have s3: "store_ok (print s w)" for s by (rule store_ok_same[OF Suc.prems]) simp
  from gen_rental_data_cases[OF refl, of depth api today path api_key zip_code w]
  show ?case
  proof (elim disjE exE conjE)
    fix df df'
    assume "nrows df \<noteq> 0" and t: "tabulate [''address'', ''lot_size'', ''building_size''] today df = Inr df'"
      and r: "gen_rental_data (Suc depth) api today path api_key zip_code w
              = (Returned, print ''CSV written'' (put path df' ?w1))"
    then have "has_run_date df'" using tabulate_has_run_date by blast
    then show ?thesis unfolding r using Suc.prems by (simp add: store_ok_def)
  qed (use Suc s1 s2 s3 in \<open>simp_all only: snd_conv\<close>)
qed


lemma gen_sales_data_store_ok:
  "store_ok w \<Longrightarrow> store_ok (snd (gen_sales_data depth api today path api_key zip_code w))"
proof (induction depth arbitrary: w)
  case 0
  then show ?case by simp
next
  case (Suc depth)
  let ?rq = "sales_request api_key zip_code"
  let ?w1 = "snd (send api ?rq w)"
  have s1: "store_ok ?w1" by (rule store_ok_same[OF Suc.prems]) simp
  have s2: "store_ok (print s ?w1)" for s by (rule store_ok_same[OF Suc.prems]) simp
  have s3: "store_ok (print s w)" for s by (rule store_ok_same[OF Suc.prems]) simp
  from gen_sales_data_cases[OF refl, of depth api today path api_key zip_code w]
  show ?case
  proof (elim disjE exE conjE)
    fix df df'
    assume "nrows df \<noteq> 0" and t: "tabulate [''address'', ''building_size'', ''lot_size''] today df = Inr df'"
      and r: "gen_sales_data (Suc depth) api today path api_key zip_code w
              = (Returned, print ''CSV written'' (put path df' ?w1))"
    then have "has_run_date df'" using tabulate_has_run_date by blast
    then show ?thesis unfolding r using Suc.prems by (simp add: store_ok_def)
  qed (use Suc s1 s2 s3 in \<open>simp_all only: snd_conv\<close>)
qed

lemma sales_retries:
  "stale today path w \<Longrightarrow>
   \<forall>i<k. malformed (api (sales_request api_key zip_code) (length (sent w) + i)) \<Longrightarrow>
   \<exists>w'. gen_sales_data (k + depth) api today path api_key zip_code w
          = gen_sales_data depth api today path api_key zip_code w'
      \<and> store w' = store w \<and> puts w' = puts w
      \<and> sent w' = sent w @ replicate k (sales_request api_key zip_code)
      \<and> printed w' = printed w @ error_lines api (sales_request api_key zip_code) (length (sent w)) k"
proof (induction k arbitrary: w)
  case 0
  then show ?case by (intro exI[of _ w]) (simp add: error_lines_def)
next
  case (Suc k)
  let ?rq = "sales_request api_key zip_code"
  let ?w1 = "print (''Error: '' @ raw (api ?rq (length (sent w)))) (snd (send api ?rq w))"
  from Suc.prems have m0: "malformed (api ?rq (length (sent w)))" by force
  have st: "stale today path ?w1" by (rule stale_store[OF Suc.prems(1)]) simp
  have ms: "\<forall>i<k. malformed (api ?rq (length (sent ?w1) + i))"
    using Suc.prems(2) by auto
  from Suc.IH[OF st ms] obtain w' where w': "gen_sales_data (k + depth) api today path api_key zip_code ?w1
          = gen_sales_data depth api today path api_key zip_code w'"
      "store w' = store ?w1" "puts w' = puts ?w1"
      "sent w' = sent ?w1 @ replicate k ?rq"
      "printed w' = printed ?w1 @ error_lines api ?rq (length (sent ?w1)) k"
    by blast
  have "gen_sales_data (Suc k + depth) api today path api_key zip_code w
        = gen_sales_data (k + depth) api today path api_key zip_code ?w1"
    using gen_sales_data_malformed[of today path w api api_key zip_code "k + depth"] Suc.prems(1) m0
    by simp
  with w' show ?case
    apply (intro exI[of _ w'])
    apply (simp only: error_lines_Suc)
    apply (simp add: replicate_app_Cons_same)
    done
qed
lemmas run_defs = eval_nat_numeral world0_def not_json_def payload_def listing_X_def
      check_run_today_def get_rental_data_def get_sales_data_def send_def properties_frame_def print_def put_def
      tabulate_def frame_of_records_def first_seen_def maybe_convert_objects_def lookup_or_nan_def
      drop_axis1_def getitem_def concat_axis1_def apply_Series_def add_prefix_def setitem_def
      get_kpis_def assign_quotient_def truediv_def quotient_def read_column_def empty_frame_def
      numeric_dtype_def object_column_def object_truediv_def py_truediv_def
lemma gen_rental_data_empty:
  assumes "stale today path w" and "empty_payload (api (rental_request api_key zip_code) (length (sent w)))"
  shows "gen_rental_data (Suc depth) api today path api_key zip_code w =
         (Returned, print (''No Rentals for: '' @ zip_code) (snd (send api (rental_request api_key zip_code) w)))"
proof -
  from assms(1) obtain v where c: "check_run_today path w = Inr v" "v \<noteq> PStr today"
    by (auto simp: stale_def split: sum.splits)
  from empty_payload_frame[OF assms(2)] c show ?thesis
    by (simp add: get_rental_data_def send_def empty_frame_def)
qed

lemma gen_sales_data_empty:
  assumes "stale today path w" and "empty_payload (api (sales_request api_key zip_code) (length (sent w)))"
  shows "gen_sales_data (Suc depth) api today path api_key zip_code w =
         (Returned, print (''No properties for sale in: '' @ zip_code) (snd (send api (sales_request api_key zip_code) w)))"
proof -
  from assms(1) obtain v where c: "check_run_today path w = Inr v" "v \<noteq> PStr today"
    by (auto simp: stale_def split: sum.splits)
  from empty_payload_frame[OF assms(2)] c show ?thesis
    by (simp add: get_sales_data_def send_def empty_frame_def)
qed

section \<open>Malformed payloads\<close>

text \<open>
  C1, as amended. When the staleness check passes and the response is no JSON, or is a
  JSON object without the key \<open>properties\<close>, the acquisition prints the raw text and calls
  itself again, and it does so for every malformed response, however many come in a row:
  after \<open>k\<close> of them it has sent \<open>k\<close> requests, printed \<open>k\<close> lines, written nothing and left
  the store as it was, and it goes on as a fresh call would, with \<open>k\<close> calls less of the
  stack left. (With no call left that is RecursionError.)
\<close>

theorem malformed_retried_every_time:
  "(stale today path w \<and> all_malformed api (rental_request api_key zip_code) (length (sent w)) k \<longrightarrow>
      (\<exists>w'. gen_rental_data (k + depth) api today path api_key zip_code w
              = gen_rental_data depth api today path api_key zip_code w'
         \<and> store w' = store w \<and> puts w' = puts w
         \<and> sent w' = sent w @ replicate k (rental_request api_key zip_code)
         \<and> printed w' = printed w @ error_lines api (rental_request api_key zip_code) (length (sent w)) k))
   \<and> (stale today path w \<and> all_malformed api (sales_request api_key zip_code) (length (sent w)) k \<longrightarrow>
      (\<exists>w'. gen_sales_data (k + depth) api today path api_key zip_code w
              = gen_sales_data depth api today path api_key zip_code w'
         \<and> store w' = store w \<and> puts w' = puts w
         \<and> sent w' = sent w @ replicate k (sales_request api_key zip_code)
         \<and> printed w' = printed w @ error_lines api (sales_request api_key zip_code) (length (sent w)) k))"
  using rental_retries[of today path w k api api_key zip_code depth]
    sales_retries[of today path w k api api_key zip_code depth]
  by (simp add: all_malformed_def list_all_iff)
theorem malformed_retried_every_time_witness:
  "stale ''2020-05-01'' ''data/rentals_55414.csv'' world0 \<and>
   all_malformed twice_malformed (rental_request ''key'' ''55414'') (length (sent world0)) 2 \<and>
   all_malformed twice_malformed (sales_request ''key'' ''55414'') (length (sent world0)) 2 \<and>
   (\<exists>w'. gen_rental_data (2 + 1) twice_malformed ''2020-05-01'' ''data/rentals_55414.csv'' ''key'' ''55414'' world0
           = gen_rental_data 1 twice_malformed ''2020-05-01'' ''data/rentals_55414.csv'' ''key'' ''55414'' w'
      \<and> store w' = store world0 \<and> puts w' = puts world0
      \<and> sent w' = sent world0 @ replicate 2 (rental_request ''key'' ''55414'')
      \<and> printed w' = printed world0 @ error_lines twice_malformed (rental_request ''key'' ''55414'') (length (sent world0)) 2) \<and>
   (\<exists>w'. gen_sales_data (2 + 1) twice_malformed ''2020-05-01'' ''data/rentals_55414.csv'' ''key'' ''55414'' world0
           = gen_sales_data 1 twice_malformed ''2020-05-01'' ''data/rentals_55414.csv'' ''key'' ''55414'' w'
      \<and> store w' = store world0 \<and> puts w' = puts world0
      \<and> sent w' = sent world0 @ replicate 2 (sales_request ''key'' ''55414'')
      \<and> printed w' = printed world0 @ error_lines twice_malformed (sales_request ''key'' ''55414'') (length (sent world0)) 2)"
proof -
  have st: "stale ''2020-05-01'' ''data/rentals_55414.csv'' world0"
    by (simp add: stale_def check_run_today_def world0_def)
  have m: "all_malformed twice_malformed rq (length (sent world0)) 2" for rq
    by (simp add: all_malformed_def twice_malformed_def malformed_def not_json_def world0_def eval_nat_numeral)
  from malformed_retried_every_time[of "''2020-05-01''" "''data/rentals_55414.csv''" world0 twice_malformed
      "''key''" "''55414''" 2 1] st m
  show ?thesis by blast
qed

text \<open>The claim as stated fails: after two malformed responses in a row the acquisition
  does not stop. It sends a third request and writes the artifact.\<close>

theorem third_time_lucky_written:
  "fst third_time_lucky = Returned \<and> length (sent (snd third_time_lucky)) = 3 \<and>
   puts (snd third_time_lucky) = [''data/rentals_55414.csv''] \<and>
   store (snd third_time_lucky) ''data/rentals_55414.csv'' \<noteq> None"
  by (simp add: third_time_lucky_def twice_malformed_def run_defs)

section \<open>Empty results\<close>

text \<open>
  C7. When the staleness check passes and the payload is a JSON object whose \<open>properties\<close>
  has no entries, the acquisition returns without an exception: it has sent its one
  request and printed that there are no listings, and it has written no artifact and left
  the store as it was. This holds for rentals and for sales.
\<close>

theorem empty_result_skipped:
  "(stale today path w \<and> empty_payload (api (rental_request api_key zip_code) (length (sent w))) \<longrightarrow>
      (\<exists>w'. gen_rental_data (Suc depth) api today path api_key zip_code w = (Returned, w')
         \<and> store w' = store w \<and> puts w' = puts w
         \<and> sent w' = sent w @ [rental_request api_key zip_code]
         \<and> printed w' = printed w @ [''No Rentals for: '' @ zip_code]))
   \<and> (stale today path w \<and> empty_payload (api (sales_request api_key zip_code) (length (sent w))) \<longrightarrow>
      (\<exists>w'. gen_sales_data (Suc depth) api today path api_key zip_code w = (Returned, w')
         \<and> store w' = store w \<and> puts w' = puts w
         \<and> sent w' = sent w @ [sales_request api_key zip_code]
         \<and> printed w' = printed w @ [''No properties for sale in: '' @ zip_code]))"
  by (simp add: gen_rental_data_empty gen_sales_data_empty
        del: gen_rental_data.simps gen_sales_data.simps)
theorem empty_result_skipped_witness:
  "stale ''2020-05-01'' ''data/rentals_55414.csv'' world0 \<and>
   empty_payload (always_empty (rental_request ''key'' ''55414'') (length (sent world0))) \<and>
   empty_payload (always_empty (sales_request ''key'' ''55414'') (length (sent world0))) \<and>
   (\<exists>w'. gen_rental_data (Suc 0) always_empty ''2020-05-01'' ''data/rentals_55414.csv'' ''key'' ''55414'' world0 = (Returned, w')
      \<and> store w' = store world0 \<and> puts w' = puts world0
      \<and> sent w' = sent world0 @ [rental_request ''key'' ''55414'']
      \<and> printed w' = printed world0 @ [''No Rentals for: '' @ ''55414'']) \<and>
   (\<exists>w'. gen_sales_data (Suc 0) always_empty ''2020-05-01'' ''data/rentals_55414.csv'' ''key'' ''55414'' world0 = (Returned, w')
      \<and> store w' = store world0 \<and> puts w' = puts world0
      \<and> sent w' = sent world0 @ [sales_request ''key'' ''55414'']
      \<and> printed w' = printed world0 @ [''No properties for sale in: '' @ ''55414''])"
proof -
  have st: "stale ''2020-05-01'' ''data/rentals_55414.csv'' world0"
    by (simp add: stale_def check_run_today_def world0_def)
  have e: "empty_payload (always_empty rq n)" for rq n
    by (simp add: empty_payload_def always_empty_def payload_def)
  from empty_result_skipped[of "''2020-05-01''" "''data/rentals_55414.csv''" world0 always_empty
      "''key''" "''55414''" 0] st e
  show ?thesis by blast
qed

section \<open>Acquisition: writing and skipping\<close>

lemma check_run_today_written:
  assumes "tabulate cols today df = Inr df'" and "nrows df \<noteq> 0" and "store w path = Some df'"
  shows "check_run_today path w = Inr (PStr today)"
proof -
  from tabulate_run_date[OF assms(1)]
  have "read_column ''run_date'' df' = Inr (replicate (nrows df) (PStr today))" by simp
  moreover from assms(2) obtain n where "nrows df = Suc n" by (cases "nrows df") auto
  ultimately show ?thesis using assms(3) by (simp add: check_run_today_def)
qed

lemma gen_rental_data_fresh:
  "check_run_today path w = Inr (PStr today) \<Longrightarrow>
   gen_rental_data (Suc depth) api today path api_key zip_code w
     = (Returned, print ''Data already collected today'' w)"
  by simp

lemma gen_sales_data_fresh:
  "check_run_today path w = Inr (PStr today) \<Longrightarrow>
   gen_sales_data (Suc depth) api today path api_key zip_code w
     = (Returned, print ''Data already collected today'' w)"
  by simp

lemma gen_rental_data_written:
  assumes "stale today path w"
    and "properties_frame (api (rental_request api_key zip_code) (length (sent w))) = Inr df"
    and "nrows df \<noteq> 0"
    and "tabulate [''address'', ''lot_size'', ''building_size''] today df = Inr df'"
  shows "gen_rental_data (Suc depth) api today path api_key zip_code w
     = (Returned, print ''CSV written'' (put path df' (snd (send api (rental_request api_key zip_code) w))))"
proof -
  from assms(1) obtain v where c: "check_run_today path w = Inr v" "v \<noteq> PStr today"
    by (auto simp: stale_def split: sum.splits)
  from assms(2-4) c show ?thesis
    by (simp add: get_rental_data_def send_def)
qed

lemma gen_sales_data_written:
  assumes "stale today path w"
    and "properties_frame (api (sales_request api_key zip_code) (length (sent w))) = Inr df"
    and "nrows df \<noteq> 0"
    and "tabulate [''address'', ''building_size'', ''lot_size''] today df = Inr df'"
  shows "gen_sales_data (Suc depth) api today path api_key zip_code w
     = (Returned, print ''CSV written'' (put path df' (snd (send api (sales_request api_key zip_code) w))))"
proof -
  from assms(1) obtain v where c: "check_run_today path w = Inr v" "v \<noteq> PStr today"
    by (auto simp: stale_def split: sum.splits)
  from assms(2-4) c show ?thesis
    by (simp add: get_sales_data_def send_def)
qed

lemma rental_twice:
  assumes "stale today path w"
    and "properties_frame (api (rental_request api_key zip_code) (length (sent w))) = Inr df"
    and "nrows df \<noteq> 0"
    and "tabulate [''address'', ''lot_size'', ''building_size''] today df = Inr df'"
  shows "\<exists>w1 w2. gen_rental_data (Suc depth) api today path api_key zip_code w = (Returned, w1) \<and>
           gen_rental_data (Suc depth') api today path api_key zip_code w1 = (Returned, w2) \<and>
           sent w2 = sent w @ [rental_request api_key zip_code] \<and>
           puts w2 = puts w @ [path] \<and>
           store w1 = (store w)(path \<mapsto> df') \<and> store w2 = store w1"
proof -
  let ?w1 = "print ''CSV written'' (put path df' (snd (send api (rental_request api_key zip_code) w)))"
  have 1: "gen_rental_data (Suc depth) api today path api_key zip_code w = (Returned, ?w1)"
    using gen_rental_data_written[where today=today and path=path and w=w and api=api
        and api_key=api_key and zip_code=zip_code and df=df and df'=df' and depth=depth] assms
    by blast
  have "check_run_today path ?w1 = Inr (PStr today)"
    by (rule check_run_today_written[OF assms(4,3)]) simp
  then have 2: "gen_rental_data (Suc depth') api today path api_key zip_code ?w1
     = (Returned, print ''Data already collected today'' ?w1)"
    by (rule gen_rental_data_fresh)
  show ?thesis
    by (intro exI[of _ ?w1] exI[of _ "print ''Data already collected today'' ?w1"])
       (simp add: 1 2 del: gen_rental_data.simps)
qed

lemma sales_twice:
  assumes "stale today path w"
    and "properties_frame (api (sales_request api_key zip_code) (length (sent w))) = Inr df"
    and "nrows df \<noteq> 0"
    and "tabulate [''address'', ''building_size'', ''lot_size''] today df = Inr df'"
  shows "\<exists>w1 w2. gen_sales_data (Suc depth) api today path api_key zip_code w = (Returned, w1) \<and>
           gen_sales_data (Suc depth') api today path api_key zip_code w1 = (Returned, w2) \<and>
           sent w2 = sent w @ [sales_request api_key zip_code] \<and>
           puts w2 = puts w @ [path] \<and>
           store w1 = (store w)(path \<mapsto> df') \<and> store w2 = store w1"
proof -
  let ?w1 = "print ''CSV written'' (put path df' (snd (send api (sales_request api_key zip_code) w)))"
  have 1: "gen_sales_data (Suc depth) api today path api_key zip_code w = (Returned, ?w1)"
    using gen_sales_data_written[where today=today and path=path and w=w and api=api
        and api_key=api_key and zip_code=zip_code and df=df and df'=df' and depth=depth] assms
    by blast
  have "check_run_today path ?w1 = Inr (PStr today)"
    by (rule check_run_today_written[OF assms(4,3)]) simp
  then have 2: "gen_sales_data (Suc depth') api today path api_key zip_code ?w1
     = (Returned, print ''Data already collected today'' ?w1)"
    by (rule gen_sales_data_fresh)
  show ?thesis
    by (intro exI[of _ ?w1] exI[of _ "print ''Data already collected today'' ?w1"])
       (simp add: 1 2 del: gen_sales_data.simps)
qed

lemma properties_frame_one_listing: "properties_frame (one_listing rq n) = Inr table_X"
  by (simp add: one_listing_def table_X_def run_defs)

lemma tabulate_rental_X:
  "tabulate [''address'', ''lot_size'', ''building_size''] ''2020-05-01'' table_X = Inr rental_artifact_X"
  by (simp add: table_X_def rental_artifact_X_def run_defs)

lemma tabulate_sales_X:
  "tabulate [''address'', ''building_size'', ''lot_size''] ''2020-05-01'' table_X = Inr sales_artifact_X"
  by (simp add: table_X_def sales_artifact_X_def run_defs)

lemma stale_world0: "stale today path world0"
  by (simp add: stale_def check_run_today_def world0_def)

lemma nrows_table_X: "nrows table_X \<noteq> 0"
  by (simp add: table_X_def)

lemma world1_eq:
  "world1 = print ''CSV written'' (put ''data/rentals_55414.csv'' rental_artifact_X
              (snd (send one_listing (rental_request ''key'' ''55414'') world0)))"
  unfolding world1_def One_nat_def
  by (subst gen_rental_data_written[where df=table_X and df'=rental_artifact_X])
     (simp_all add: stale_world0 properties_frame_one_listing tabulate_rental_X nrows_table_X)

lemma check_world1: "check_run_today ''data/rentals_55414.csv'' world1 = Inr (PStr ''2020-05-01'')"
  by (simp add: world1_eq check_run_today_def read_column_def rental_artifact_X_def)

section \<open>One acquisition per day\<close>

text \<open>
  C2, as amended. If an artifact exists at the path and the run date of its first record
  is today's date, a call of either acquisition sends no request and writes nothing: it
  prints that the data was already collected and returns. Consequently, when the first of
  two calls on the same day passes the staleness check, receives a well-formed payload
  with at least one listing and normalizes it without an exception, the two calls together
  send exactly one request and write exactly one artifact, and the second call leaves the
  store as the first call left it.
\<close>

theorem acquired_today_is_skipped:
  "(check_run_today path w = Inr (PStr today) \<longrightarrow>
      gen_rental_data (Suc depth) api today path api_key zip_code w
        = (Returned, print ''Data already collected today'' w) \<and>
      gen_sales_data (Suc depth) api today path api_key zip_code w
        = (Returned, print ''Data already collected today'' w))
   \<and> (stale today path w \<and>
       properties_frame (api (rental_request api_key zip_code) (length (sent w))) = Inr df \<and>
       nrows df \<noteq> 0 \<and> tabulate [''address'', ''lot_size'', ''building_size''] today df = Inr df' \<longrightarrow>
       (\<exists>w1 w2. gen_rental_data (Suc depth) api today path api_key zip_code w = (Returned, w1) \<and>
           gen_rental_data (Suc depth') api today path api_key zip_code w1 = (Returned, w2) \<and>
           sent w2 = sent w @ [rental_request api_key zip_code] \<and>
           puts w2 = puts w @ [path] \<and>
           store w1 = (store w)(path \<mapsto> df') \<and> store w2 = store w1))
   \<and> (stale today path w \<and>
       properties_frame (api (sales_request api_key zip_code) (length (sent w))) = Inr df \<and>
       nrows df \<noteq> 0 \<and> tabulate [''address'', ''building_size'', ''lot_size''] today df = Inr df' \<longrightarrow>
       (\<exists>w1 w2. gen_sales_data (Suc depth) api today path api_key zip_code w = (Returned, w1) \<and>
           gen_sales_data (Suc depth') api today path api_key zip_code w1 = (Returned, w2) \<and>
           sent w2 = sent w @ [sales_request api_key zip_code] \<and>
           puts w2 = puts w @ [path] \<and>
           store w1 = (store w)(path \<mapsto> df') \<and> store w2 = store w1))"
  using rental_twice[of today path w api api_key zip_code df df' depth depth']
    sales_twice[of today path w api api_key zip_code df df' depth depth']
  by (simp del: gen_rental_data.simps gen_sales_data.simps add: gen_rental_data_fresh gen_sales_data_fresh)

theorem acquired_today_is_skipped_witness:
  "check_run_today ''data/rentals_55414.csv'' world1 = Inr (PStr ''2020-05-01'') \<and>
   gen_rental_data (Suc 0) one_listing ''2020-05-01'' ''data/rentals_55414.csv'' ''key'' ''55414'' world1
     = (Returned, print ''Data already collected today'' world1) \<and>
   gen_sales_data (Suc 0) one_listing ''2020-05-01'' ''data/rentals_55414.csv'' ''key'' ''55414'' world1
     = (Returned, print ''Data already collected today'' world1) \<and>
   stale ''2020-05-01'' ''data/rentals_55414.csv'' world0 \<and>
   properties_frame (one_listing (rental_request ''key'' ''55414'') (length (sent world0))) = Inr table_X \<and>
   properties_frame (one_listing (sales_request ''key'' ''55414'') (length (sent world0))) = Inr table_X \<and>
   nrows table_X \<noteq> 0 \<and>
   tabulate [''address'', ''lot_size'', ''building_size''] ''2020-05-01'' table_X = Inr rental_artifact_X \<and>
   tabulate [''address'', ''building_size'', ''lot_size''] ''2020-05-01'' table_X = Inr sales_artifact_X \<and>
   (\<exists>w1 w2. gen_rental_data (Suc 0) one_listing ''2020-05-01'' ''data/rentals_55414.csv'' ''key'' ''55414'' world0 = (Returned, w1) \<and>
       gen_rental_data (Suc 0) one_listing ''2020-05-01'' ''data/rentals_55414.csv'' ''key'' ''55414'' w1 = (Returned, w2) \<and>
       sent w2 = sent world0 @ [rental_request ''key'' ''55414''] \<and>
       puts w2 = puts world0 @ [''data/rentals_55414.csv''] \<and>
       store w1 = (store world0)(''data/rentals_55414.csv'' \<mapsto> rental_artifact_X) \<and> store w2 = store w1) \<and>
   (\<exists>w1 w2. gen_sales_data (Suc 0) one_listing ''2020-05-01'' ''data/rentals_55414.csv'' ''key'' ''55414'' world0 = (Returned, w1) \<and>
       gen_sales_data (Suc 0) one_listing ''2020-05-01'' ''data/rentals_55414.csv'' ''key'' ''55414'' w1 = (Returned, w2) \<and>
       sent w2 = sent world0 @ [sales_request ''key'' ''55414''] \<and>
       puts w2 = puts world0 @ [''data/rentals_55414.csv''] \<and>
       store w1 = (store world0)(''data/rentals_55414.csv'' \<mapsto> sales_artifact_X) \<and> store w2 = store w1)"
proof -
  have n: "nrows table_X \<noteq> 0" by (simp add: table_X_def)
  from acquired_today_is_skipped[where path="''data/rentals_55414.csv''" and w=world1
      and today="''2020-05-01''" and api=one_listing and api_key="''key''" and zip_code="''55414''" and depth=0]
    check_world1
  have a: "gen_rental_data (Suc 0) one_listing ''2020-05-01'' ''data/rentals_55414.csv'' ''key'' ''55414'' world1
     = (Returned, print ''Data already collected today'' world1) \<and>
   gen_sales_data (Suc 0) one_listing ''2020-05-01'' ''data/rentals_55414.csv'' ''key'' ''55414'' world1
     = (Returned, print ''Data already collected today'' world1)"
    by blast
  from acquired_today_is_skipped[where path="''data/rentals_55414.csv''" and w=world0
      and today="''2020-05-01''" and api=one_listing and api_key="''key''" and zip_code="''55414''"
      and depth=0 and depth'=0 and df=table_X and df'=rental_artifact_X]
    stale_world0 properties_frame_one_listing n tabulate_rental_X
  have b: "\<exists>w1 w2. gen_rental_data (Suc 0) one_listing ''2020-05-01'' ''data/rentals_55414.csv'' ''key'' ''55414'' world0 = (Returned, w1) \<and>
       gen_rental_data (Suc 0) one_listing ''2020-05-01'' ''data/rentals_55414.csv'' ''key'' ''55414'' w1 = (Returned, w2) \<and>
       sent w2 = sent world0 @ [rental_request ''key'' ''55414''] \<and>
       puts w2 = puts world0 @ [''data/rentals_55414.csv''] \<and>
       store w1 = (store world0)(''data/rentals_55414.csv'' \<mapsto> rental_artifact_X) \<and> store w2 = store w1"
    by blast
  from acquired_today_is_skipped[where path="''data/rentals_55414.csv''" and w=world0
      and today="''2020-05-01''" and api=one_listing and api_key="''key''" and zip_code="''55414''"
      and depth=0 and depth'=0 and df=table_X and df'=sales_artifact_X]
    stale_world0 properties_frame_one_listing n tabulate_sales_X
  have c: "\<exists>w1 w2. gen_sales_data (Suc 0) one_listing ''2020-05-01'' ''data/rentals_55414.csv'' ''key'' ''55414'' world0 = (Returned, w1) \<and>
       gen_sales_data (Suc 0) one_listing ''2020-05-01'' ''data/rentals_55414.csv'' ''key'' ''55414'' w1 = (Returned, w2) \<and>
       sent w2 = sent world0 @ [sales_request ''key'' ''55414''] \<and>
       puts w2 = puts world0 @ [''data/rentals_55414.csv''] \<and>
       store w1 = (store world0)(''data/rentals_55414.csv'' \<mapsto> sales_artifact_X) \<and> store w2 = store w1"
    by blast
  from a b c check_world1 stale_world0 properties_frame_one_listing n tabulate_rental_X tabulate_sales_X
  show ?thesis by blast
qed

text \<open>The claim as stated fails: two calls on the same day against an upstream without
  listings send two requests and write nothing.\<close>

theorem empty_twice_fetches_twice:
  "fst empty_first = Returned \<and> fst empty_second = Returned \<and>
   length (sent (snd empty_second)) = 2 \<and> puts (snd empty_second) = []"
  by (simp add: empty_first_def empty_second_def always_empty_def run_defs)

section \<open>Every artifact can be read back\<close>

lemma store_ok_check: "store_ok w \<Longrightarrow> \<exists>v. check_run_today path w = Inr v"
proof (cases "store w path")
  case None
  then show ?thesis by (simp add: check_run_today_def)
next
  case (Some art)
  assume "store_ok w"
  with Some have h: "has_run_date art" by (simp add: store_ok_def)
  then obtain cs where cs: "read_column ''run_date'' art = Inr cs" "length cs = nrows art"
    by (auto simp: has_run_date_def split: sum.splits)
  with h obtain c cs' where "cs = c # cs'" by (cases cs) (auto simp: has_run_date_def)
  with cs Some show ?thesis by (simp add: check_run_today_def)
qed

text \<open>
  C10. In every world that acquisitions lead to from an empty store, every artifact of the
  store has at least one record and a \<open>run_date\<close> cell for each record, so that
  \<open>check_run_today\<close> returns a value for every path: reading the first run date raises
  neither KeyError nor IndexError.
\<close>

theorem acquired_store_readable:
  "acquired w \<Longrightarrow> store_ok w \<and> (\<forall>path. \<exists>v. check_run_today path w = Inr v)"
proof -
  assume "acquired w"
  then have "store_ok w"
  proof (induction rule: acquired.induct)
    case (start w)
    then show ?case by (simp add: store_ok_def)
  next
    case (rental w depth api today path api_key zip_code)
    then show ?case by (simp only: gen_rental_data_store_ok)
  next
    case (sales w depth api today path api_key zip_code)
    then show ?case by (simp only: gen_sales_data_store_ok)
  qed
  then show ?thesis using store_ok_check by blast
qed

theorem acquired_store_readable_witness:
  "acquired world1 \<and> store world1 ''data/rentals_55414.csv'' = Some rental_artifact_X \<and>
   store_ok world1 \<and> (\<exists>v. check_run_today ''data/rentals_55414.csv'' world1 = Inr v)"
proof -
  have "acquired world0" by (rule acquired.start) (simp add: world0_def)
  then have a: "acquired world1" unfolding world1_def by (rule acquired.rental)
  have s: "store world1 ''data/rentals_55414.csv'' = Some rental_artifact_X"
    by (simp add: world1_eq)
  from acquired_store_readable[OF a] a s show ?thesis by blast
qed

section \<open>Sorting\<close>

lemma fle_total: "x \<noteq> NaN \<Longrightarrow> y \<noteq> NaN \<Longrightarrow> fle x y \<or> fle y x"
  by (cases x; cases y) auto

lemma fle_trans: "fle x y \<Longrightarrow> fle y z \<Longrightarrow> y \<noteq> NaN \<Longrightarrow> fle x z"
  by (cases x; cases y; cases z) auto

lemma set_insert_by: "set (insert_by le x xs) = insert x (set xs)"
  by (induction xs) auto

lemma mset_insert_by: "mset (insert_by le x xs) = add_mset x (mset xs)"
  by (induction xs) auto

lemma mset_sort_by: "mset (sort_by le xs) = mset xs"
  by (induction xs) (simp_all add: sort_by_def mset_insert_by)

lemma set_sort_by: "set (sort_by le xs) = set xs"
  using mset_sort_by[of le xs] by (metis set_mset_mset)

lemma sorted_insert_by:
  "le_total_on A le \<Longrightarrow> le_trans_on A le \<Longrightarrow> x \<in> A \<Longrightarrow> set xs \<subseteq> A \<Longrightarrow> sorted_wrt le xs \<Longrightarrow>
   sorted_wrt le (insert_by le x xs)"
proof (induction xs)
  case Nil
  then show ?case by simp
next
  case (Cons y ys)
  from Cons.prems have yA: "y \<in> A" and ysA: "set ys \<subseteq> A" by simp_all
  from Cons.prems have sy: "\<forall>z\<in>set ys. le y z" and sys: "sorted_wrt le ys" by simp_all
  show ?case
  proof (cases "le x y")
    case True
    have "le x z" if "z \<in> set ys" for z
    proof -
      from sy that have "le y z" by simp
      moreover from that ysA have "z \<in> A" by blast
      ultimately show ?thesis
        using True Cons.prems(2,3) yA unfolding le_trans_on_def by blast
    qed
    with True sy sys show ?thesis by simp
  next
    case False
    with Cons.prems(1,3) yA have yx: "le y x" unfolding le_total_on_def by blast
    have "sorted_wrt le (insert_by le x ys)"
      by (rule Cons.IH[OF Cons.prems(1,2,3) ysA sys])
    with False yx sy show ?thesis by (simp add: set_insert_by)
  qed
qed

lemma sorted_sort_by:
  "le_total_on A le \<Longrightarrow> le_trans_on A le \<Longrightarrow> set xs \<subseteq> A \<Longrightarrow> sorted_wrt le (sort_by le xs)"
proof (induction xs)
  case Nil
  then show ?case by (simp add: sort_by_def)
next
  case (Cons x xs)
  from Cons.prems have xA: "x \<in> A" and xsA: "set xs \<subseteq> A" by simp_all
  have ih: "sorted_wrt le (sort_by le xs)" by (rule Cons.IH[OF Cons.prems(1,2) xsA])
  have "sorted_wrt le (insert_by le x (sort_by le xs))"
    by (rule sorted_insert_by[OF Cons.prems(1,2) xA _ ih]) (simp add: set_sort_by xsA)
  then show ?case by (simp add: sort_by_def)
qed

lemma sorted_wrt_rev_flip: "sorted_wrt (\<lambda>a b. P b a) (rev xs) = sorted_wrt P xs"
  by (simp add: sorted_wrt_rev)

lemma mset_sort_values_descending: "mset (sort_values_descending keep_order d) = mset d"
proof -
  have "mset (filter (\<lambda>e. snd e \<noteq> NaN) d) + mset (filter (\<lambda>e. snd e = NaN) d) = mset d"
    using multiset_partition[of "mset d" "\<lambda>e. snd e \<noteq> NaN"] by simp
  then show ?thesis
    by (simp add: sort_values_descending_def Let_def mset_sort_by)
qed

lemma descending_sort_values: "descending_nan_last (sort_values_descending keep_order d)"
proof -
  let ?good = "filter (\<lambda>e. snd e \<noteq> NaN) d"
  let ?le = "\<lambda>a b :: string \<times> fval. fle (snd a) (snd b)"
  define g where "g = (if keep_order then rev (sort_by ?le (rev ?good)) else rev (sort_by ?le ?good))"
  have sv: "sort_values_descending keep_order d = g @ filter (\<lambda>e. snd e = NaN) d"
    by (simp add: sort_values_descending_def Let_def g_def)
  have setg: "set g = set ?good" by (simp add: g_def set_sort_by)
  have tot: "le_total_on (set ?good) ?le"
    unfolding le_total_on_def using fle_total by auto
  have tr: "le_trans_on (set ?good) ?le"
    unfolding le_trans_on_def
  proof (intro ballI impI)
    fix a b c :: "string \<times> fval"
    assume "b \<in> set ?good" "?le a b" "?le b c"
    then show "?le a c" using fle_trans[of "snd a" "snd b" "snd c"] by simp
  qed
  have sorted: "sorted_wrt ?le (sort_by ?le ys)" if "set ys = set ?good" for ys
    by (rule sorted_sort_by[OF tot tr]) (simp add: that)
  have sg: "sorted_wrt (\<lambda>a b. fle (snd b) (snd a)) g"
    using sorted[of ?good] sorted[of "rev ?good"]
    by (simp add: g_def sorted_wrt_rev)
  have f1: "filter (\<lambda>e. snd e \<noteq> NaN) g = g" using setg by (auto intro!: filter_True)
  have f2: "filter (\<lambda>e. snd e = NaN) g = []" using setg by (auto simp: filter_empty_conv)
  show ?thesis
    unfolding descending_nan_last_def sv using sg by (simp add: f1 f2)
qed

lemma distinct_first_seen: "distinct (first_seen xs)"
  by (simp add: first_seen_def)

lemma set_first_seen: "set (first_seen xs) = set xs"
  by (simp add: first_seen_def)

text \<open>The sort is stable: entries of one value keep their order.\<close>

lemma fle_refl: "x \<noteq> NaN \<Longrightarrow> fle x x"
  by (cases x) auto

lemma filter_insert_by:
  "(\<And>y. y \<in> set xs \<Longrightarrow> P x \<Longrightarrow> P y \<Longrightarrow> le x y) \<Longrightarrow>
   filter P (insert_by le x xs) = (if P x then x # filter P xs else filter P xs)"
  by (induction xs) auto

lemma filter_sort_by:
  "(\<And>a b. P a \<Longrightarrow> P b \<Longrightarrow> le a b) \<Longrightarrow> filter P (sort_by le xs) = filter P xs"
proof (induction xs)
  case Nil
  then show ?case by (simp add: sort_by_def)
next
  case (Cons x xs)
  have "filter P (insert_by le x (sort_by le xs))
      = (if P x then x # filter P (sort_by le xs) else filter P (sort_by le xs))"
    by (rule filter_insert_by) (rule Cons.prems)
  with Cons show ?case by (simp add: sort_by_def)
qed

lemma filter_none_sort_by:
  "(\<And>e. e \<in> set xs \<Longrightarrow> \<not> P e) \<Longrightarrow> filter P (sort_by le xs) = []"
  by (simp add: filter_empty_conv set_sort_by)

lemma filter_sort_values_descending:
  "filter (\<lambda>e. snd e = v) (sort_values_descending keep_order d)
     = (if keep_order \<or> v = NaN then filter (\<lambda>e. snd e = v) d
        else rev (filter (\<lambda>e. snd e = v) d))"
proof (cases "v = NaN")
  case True
  let ?le = "\<lambda>a b :: string \<times> fval. fle (snd a) (snd b)"
  let ?good = "filter (\<lambda>e. snd e \<noteq> NaN) d"
  have 1: "filter (\<lambda>e. snd e = NaN) (sort_by ?le ?good) = []"
    by (rule filter_none_sort_by) simp
  have 2: "filter (\<lambda>e. snd e = NaN) (sort_by ?le (rev ?good)) = []"
    by (rule filter_none_sort_by) simp
  show ?thesis
    using True 1 2 by (simp add: sort_values_descending_def Let_def rev_filter[symmetric] del: filter_filter)
next
  case False
  let ?P = "\<lambda>e :: string \<times> fval. snd e = v"
  let ?le = "\<lambda>a b :: string \<times> fval. fle (snd a) (snd b)"
  have s: "filter ?P (sort_by ?le xs) = filter ?P xs" for xs
    by (rule filter_sort_by) (simp add: fle_refl False)
  have g: "filter ?P (filter (\<lambda>e. snd e \<noteq> NaN) d) = filter ?P d"
    using False by (auto intro: filter_cong)
  have b: "filter ?P (filter (\<lambda>e. snd e = NaN) d) = []"
    using False by (auto simp: filter_empty_conv)
  show ?thesis
    using False
    by (simp add: sort_values_descending_def Let_def rev_filter[symmetric] s g b
        del: filter_filter)
qed

lemma remdups_snoc: "remdups (ys @ [x]) = filter (\<lambda>y. y \<noteq> x) (remdups ys) @ [x]"
  by (induction ys) auto

lemma first_seen_Cons: "first_seen (x # xs) = x # filter (\<lambda>y. y \<noteq> x) (first_seen xs)"
  by (simp add: first_seen_def remdups_snoc rev_filter)

lemma map_fst_filter_value:
  "distinct (map fst xs) \<Longrightarrow>
   map fst (filter (\<lambda>e. snd e = v) xs) = filter (\<lambda>k. map_of xs k = Some v) (map fst xs)"
proof (induction xs)
  case Nil
  then show ?case by simp
next
  case (Cons a xs)
  obtain k w where a: "a = (k, w)" by (cases a)
  from Cons.prems a have "k \<notin> set (map fst xs)" by simp
  then have "filter (\<lambda>k'. map_of (a # xs) k' = Some v) (map fst xs)
           = filter (\<lambda>k'. map_of xs k' = Some v) (map fst xs)"
    unfolding a by (intro filter_cong) auto
  with Cons a show ?case by simp
qed
section \<open>The loop of the aggregation\<close>

lemma map_of_dict_set: "map_of (dict_set d k v) = (map_of d)(k \<mapsto> v)"
  by (induction d) (auto simp: fun_eq_iff)

lemma keys_dict_set: "fst ` set (dict_set d k v) = insert k (fst ` set d)"
  by (induction d) auto

lemma distinct_dict_set: "distinct (map fst d) \<Longrightarrow> distinct (map fst (dict_set d k v))"
  by (induction d) (auto simp: keys_dict_set)

lemma analyze_loop_missing:
  "\<not> has_both st z \<Longrightarrow> \<exists>out1. analyze_loop (z # rest) st d out = analyze_loop rest st d out1"
  by (auto simp: has_both_def rental_path_def sales_path_def Let_def split: option.splits)

lemma analyze_loop_both:
  "st (rental_path z) = Some r \<Longrightarrow> st (sales_path z) = Some s \<Longrightarrow>
   analyze_loop (z # rest) st d out =
     (case ratio r s of
        Inl e \<Rightarrow> Inl e
      | Inr v \<Rightarrow>
          (case medians kpi_names r of
             Inl e \<Rightarrow> Inl e
           | Inr mr \<Rightarrow>
               (case medians kpi_names s of
                  Inl e \<Rightarrow> Inl e
                | Inr ms \<Rightarrow>
                    analyze_loop rest st (dict_set d z v)
                      (out @ [Counts (nrows r) (nrows s), KpiData z mr ms]))))"
  by (simp add: rental_path_def sales_path_def)

lemma analyze_loop_filter:
  "map_sum id fst (analyze_loop zs st d out)
     = map_sum id fst (analyze_loop (filter (has_both st) zs) st d out')"
proof (induction zs arbitrary: d out out')
  case Nil
  then show ?case by simp
next
  case (Cons z rest)
  show ?case
  proof (cases "has_both st z")
    case False
    then obtain out1 where "analyze_loop (z # rest) st d out = analyze_loop rest st d out1"
      using analyze_loop_missing by blast
    with False Cons.IH[of d out1 out'] show ?thesis by (simp del: analyze_loop.simps)
  next
    case True
    then obtain r s where rs: "st (rental_path z) = Some r" "st (sales_path z) = Some s"
      by (auto simp: has_both_def)
    show ?thesis
      using True Cons.IH
      by (simp add: analyze_loop_both[OF rs] del: analyze_loop.simps split: sum.splits)
  qed
qed

lemma analyze_loop_dict:
  "analyze_loop zs st d out = Inr (d', out') \<Longrightarrow> distinct (map fst d) \<Longrightarrow>
   distinct (map fst d') \<and>
   (\<forall>z. map_of d' z = (if z \<in> set zs \<and> has_both st z then zip_ratio st z else map_of d z)) \<and>
   (\<forall>z\<in>set zs. has_both st z \<longrightarrow> zip_ratio st z \<noteq> None)"
proof (induction zs arbitrary: d out)
  case Nil
  then show ?case by simp
next
  case (Cons z rest)
  show ?case
  proof (cases "has_both st z")
    case False
    then obtain out1 where "analyze_loop (z # rest) st d out = analyze_loop rest st d out1"
      using analyze_loop_missing by blast
    with Cons.prems have "analyze_loop rest st d out1 = Inr (d', out')" by simp
    from Cons.IH[OF this Cons.prems(2)] False show ?thesis by auto
  next
    case True
    then obtain r s where rs: "st (rental_path z) = Some r" "st (sales_path z) = Some s"
      by (auto simp: has_both_def)
    from Cons.prems(1) obtain v out1 where v: "ratio r s = Inr v"
      and rec: "analyze_loop rest st (dict_set d z v) out1 = Inr (d', out')"
      unfolding analyze_loop_both[OF rs] by (auto split: sum.splits)
    have zr: "zip_ratio st z = Some v" using rs v by (simp add: zip_ratio_def)
    from Cons.IH[OF rec distinct_dict_set[OF Cons.prems(2)]] zr True
    show ?thesis by (auto simp: map_of_dict_set)
  qed
qed

lemma map_fst_dict_set:
  "map fst (dict_set d k v) = (if k \<in> fst ` set d then map fst d else map fst d @ [k])"
  by (induction d) auto

text \<open>The keys of \<open>d\<close> are the zip codes with both datasets, in the order of their first
  visit.\<close>

lemma analyze_loop_keys:
  "analyze_loop zs st d out = Inr (d', out') \<Longrightarrow>
   map fst d' = map fst d @ filter (\<lambda>z. z \<notin> fst ` set d) (first_seen (filter (has_both st) zs))"
proof (induction zs arbitrary: d out)
  case Nil
  then show ?case by (simp add: first_seen_def)
next
  case (Cons z rest)
  show ?case
  proof (cases "has_both st z")
    case False
    then obtain out1 where "analyze_loop (z # rest) st d out = analyze_loop rest st d out1"
      using analyze_loop_missing by blast
    with Cons.prems have "analyze_loop rest st d out1 = Inr (d', out')" by simp
    from Cons.IH[OF this] False show ?thesis by simp
  next
    case True
    then obtain r s where rs: "st (rental_path z) = Some r" "st (sales_path z) = Some s"
      by (auto simp: has_both_def)
    from Cons.prems(1) obtain v out1 where
      rec: "analyze_loop rest st (dict_set d z v) out1 = Inr (d', out')"
      unfolding analyze_loop_both[OF rs] by (auto split: sum.splits)
    let ?fs = "first_seen (filter (has_both st) rest)"
    have ih: "map fst d' = map fst (dict_set d z v)
                @ filter (\<lambda>y. y \<notin> fst ` set (dict_set d z v)) ?fs"
      by (rule Cons.IH[OF rec])
    show ?thesis
    proof (cases "z \<in> fst ` set d")
      case in_d: True
      then have "filter (\<lambda>y. y \<notin> fst ` set d) (filter (\<lambda>y. y \<noteq> z) ?fs)
               = filter (\<lambda>y. y \<notin> fst ` set d) ?fs"
        by (auto intro: filter_cong)
      with in_d ih True show ?thesis
        by (simp add: first_seen_Cons map_fst_dict_set keys_dict_set insert_absorb
            del: filter_filter)
    next
      case not_in_d: False
      have "filter (\<lambda>y. y \<notin> insert z (fst ` set d)) ?fs
          = filter (\<lambda>y. y \<notin> fst ` set d) (filter (\<lambda>y. y \<noteq> z) ?fs)"
        by (auto intro: filter_cong)
      with not_in_d ih True show ?thesis
        by (simp add: first_seen_Cons map_fst_dict_set keys_dict_set del: filter_filter)
    qed
  qed
qed

section \<open>Examples of the aggregation\<close>

lemmas agg_defs = analyze_def sort_values_descending_def sort_by_def ratio_def column_median_def
  median_def nanmedian_def middle_def read_column_def kpi_names_def kpi_artifact_def

lemma analyze_store_AB: "analyze keep_order [''B'', ''C'', ''A''] store_AB = Inr rep_AB"
  by (cases keep_order) (simp_all add: rep_AB_def store_AB_def agg_defs Let_def)

lemma get_kpis_three_houses: "get_kpis three_houses = Inr three_houses_kpis"
  by (simp add: three_houses_def three_houses_kpis_def run_defs)

section \<open>Medians of the KPI columns\<close>

lemma digits_label:
  "c \<in> set name \<Longrightarrow> c \<notin> set ''0123456789'' \<Longrightarrow> (str_label l = name) = (l = LStr name)"
proof (cases l)
  case (LInt n)
  assume "c \<in> set name" "c \<notin> set ''0123456789''"
  with str_nat_digits[of n] have "str_nat n \<noteq> name" by blast
  with LInt show ?thesis by simp
qed simp

lemma read_column_cols_of:
  "c \<in> set name \<Longrightarrow> c \<notin> set ''0123456789'' \<Longrightarrow>
   read_column name df = (case cols_of (LStr name) df of [] \<Rightarrow> Inl KeyError | c # cs \<Rightarrow> Inr (snd c))"
  by (simp add: read_column_def cols_of_def digits_label[of c name])

lemma kpi_column_read:
  assumes "kpi_column name divisor df df'" and "CHR ''p'' \<in> set name"
  shows "read_column name df' = Inr (quotient (cells ''price'' df) (cells divisor df))"
proof -
  from assms(1) obtain c cs where c: "cols_of (LStr name) df' = c # cs"
    and "snd c = quotient (cells ''price'' df) (cells divisor df)"
    by (cases "cols_of (LStr name) df'") (auto simp: kpi_column_def)
  then show ?thesis
    using read_column_cols_of[of "CHR ''p''" name df'] assms(2) by simp
qed

lemma median_quotient:
  "median (quotient xs ys) = Inr (middle (filter (\<lambda>x. x \<noteq> NaN) (map as_float (quotient xs ys))))"
  by (simp add: median_def nanmedian_def quotient_def list_all_iff)

lemma kpi_column_median:
  assumes "kpi_column name divisor df df'" and "CHR ''p'' \<in> set name"
  shows "column_median name df'
    = Inr (middle (filter (\<lambda>x. x \<noteq> NaN) (map as_float (quotient (cells ''price'' df) (cells divisor df)))))"
  by (simp add: column_median_def kpi_column_read[OF assms] median_quotient)

lemma get_kpis_float:
  assumes "numeric_column ''price'' df" and "numeric_column ''building_size_size'' df"
    and "numeric_column ''beds'' df" and "numeric_column ''baths'' df"
  shows "\<exists>df'. get_kpis df = Inr df' \<and> nrows df' = nrows df \<and>
           kpi_column ''price_per_sqft'' ''building_size_size'' df df' \<and>
           kpi_column ''price_per_beds'' ''beds'' df df' \<and>
           kpi_column ''price_per_bath'' ''baths'' df df'"
  using assms
  by (simp add: get_kpis_def assign_quotient_numeric numeric_column_setitem cells_setitem
      nrows_setitem kpi_column_setitem_same kpi_column_setitem_other)

text \<open>
  C4, as amended. Take a rental and a sale table in each of which the four columns \<open>price\<close>,
  \<open>building_size_size\<close>, \<open>beds\<close> and \<open>baths\<close> have a numeric dtype or are missing in every
  record. Then \<open>get_kpis\<close> returns on both; every record whose KPI divisor is zero or
  missing receives a non-finite KPI value and stays in the dataset; the medians of the
  three KPI columns, as the aggregation takes them for a zip code, are the medians of those
  values of the columns that are not NaN; and the ratio of the zip code is the quotient of
  these medians of the price per square foot. A NaN (a missing divisor or price, or zero by
  zero) contributes nothing; an infinity (a zero divisor under a price that is not zero)
  takes part in the median like any other value.
\<close>

theorem nan_skipped_infinity_kept:
  assumes "kpi_input r" and "kpi_input s"
  shows "\<exists>r' s'. get_kpis r = Inr r' \<and> get_kpis s = Inr s' \<and>
      nrows r' = nrows r \<and> nrows s' = nrows s \<and>
      kpi_column ''price_per_sqft'' ''building_size_size'' r r' \<and>
      kpi_column ''price_per_beds'' ''beds'' r r' \<and>
      kpi_column ''price_per_bath'' ''baths'' r r' \<and>
      kpi_column ''price_per_sqft'' ''building_size_size'' s s' \<and>
      kpi_column ''price_per_beds'' ''beds'' s s' \<and>
      kpi_column ''price_per_bath'' ''baths'' s s' \<and>
      medians kpi_names r' =
        Inr [median_not_nan (kpi_values ''building_size_size'' r),
             median_not_nan (kpi_values ''beds'' r), median_not_nan (kpi_values ''baths'' r)] \<and>
      medians kpi_names s' =
        Inr [median_not_nan (kpi_values ''building_size_size'' s),
             median_not_nan (kpi_values ''beds'' s), median_not_nan (kpi_values ''baths'' s)] \<and>
      ratio r' s' =
        Inr (fdiv (median_not_nan (kpi_values ''building_size_size'' r))
                  (median_not_nan (kpi_values ''building_size_size'' s)))"
proof -
  from assms(1) obtain r' where r: "get_kpis r = Inr r'" "nrows r' = nrows r"
    "kpi_column ''price_per_sqft'' ''building_size_size'' r r'"
    "kpi_column ''price_per_beds'' ''beds'' r r'"
    "kpi_column ''price_per_bath'' ''baths'' r r'"
    using get_kpis_float[of r] by (auto simp: kpi_input_def)
  from assms(2) obtain s' where s: "get_kpis s = Inr s'" "nrows s' = nrows s"
    "kpi_column ''price_per_sqft'' ''building_size_size'' s s'"
    "kpi_column ''price_per_beds'' ''beds'' s s'"
    "kpi_column ''price_per_bath'' ''baths'' s s'"
    using get_kpis_float[of s] by (auto simp: kpi_input_def)
  have mr: "medians kpi_names r' =
        Inr [median_not_nan (kpi_values ''building_size_size'' r),
             median_not_nan (kpi_values ''beds'' r), median_not_nan (kpi_values ''baths'' r)]"
    using r(3-5) by (simp add: kpi_names_def kpi_column_median median_not_nan_def kpi_values_def)
  have ms: "medians kpi_names s' =
        Inr [median_not_nan (kpi_values ''building_size_size'' s),
             median_not_nan (kpi_values ''beds'' s), median_not_nan (kpi_values ''baths'' s)]"
    using s(3-5) by (simp add: kpi_names_def kpi_column_median median_not_nan_def kpi_values_def)
  have rt: "ratio r' s' =
        Inr (fdiv (median_not_nan (kpi_values ''building_size_size'' r))
                  (median_not_nan (kpi_values ''building_size_size'' s)))"
    using r(3) s(3) by (simp add: ratio_def kpi_column_median median_not_nan_def kpi_values_def)
  from r s mr ms rt show ?thesis by blast
qed

theorem nan_skipped_infinity_kept_witness:
  "kpi_input three_houses \<and> kpi_input two_houses \<and>
   (\<exists>r' s'. get_kpis three_houses = Inr r' \<and> get_kpis two_houses = Inr s' \<and>
      nrows r' = nrows three_houses \<and> nrows s' = nrows two_houses \<and>
      kpi_column ''price_per_sqft'' ''building_size_size'' three_houses r' \<and>
      kpi_column ''price_per_beds'' ''beds'' three_houses r' \<and>
      kpi_column ''price_per_bath'' ''baths'' three_houses r' \<and>
      kpi_column ''price_per_sqft'' ''building_size_size'' two_houses s' \<and>
      kpi_column ''price_per_beds'' ''beds'' two_houses s' \<and>
      kpi_column ''price_per_bath'' ''baths'' two_houses s' \<and>
      medians kpi_names r' =
        Inr [median_not_nan (kpi_values ''building_size_size'' three_houses),
             median_not_nan (kpi_values ''beds'' three_houses),
             median_not_nan (kpi_values ''baths'' three_houses)] \<and>
      medians kpi_names s' =
        Inr [median_not_nan (kpi_values ''building_size_size'' two_houses),
             median_not_nan (kpi_values ''beds'' two_houses),
             median_not_nan (kpi_values ''baths'' two_houses)] \<and>
      ratio r' s' =
        Inr (fdiv (median_not_nan (kpi_values ''building_size_size'' three_houses))
                  (median_not_nan (kpi_values ''building_size_size'' two_houses))))"
proof -
  have h: "kpi_input three_houses" "kpi_input two_houses"
    by (simp_all add: kpi_input_def numeric_column_def numeric_dtype_def cols_of_def
        three_houses_def two_houses_def)
  from nan_skipped_infinity_kept [OF h] h show ?thesis by blast
qed

text \<open>The claim as stated fails: the house without beds has an infinite price per bed,
  and the median of the column is 300, the middle of 200, 300 and infinity, where the
  median of the finite values is 250. The same holds for the price per square foot, from
  which the ratio is taken.\<close>

theorem infinite_kpi_in_median:
  "get_kpis three_houses = Inr three_houses_kpis \<and>
   column_median ''price_per_beds'' three_houses_kpis = Inr (Fin 300) \<and>
   finite_median (map as_float (cells ''price_per_beds'' three_houses_kpis)) = Fin 250 \<and>
   column_median ''price_per_sqft'' three_houses_kpis = Inr (Fin 3) \<and>
   finite_median (map as_float (cells ''price_per_sqft'' three_houses_kpis)) = Fin (5 / 2)"
  by (simp add: get_kpis_three_houses)
     (simp add: three_houses_kpis_def finite_median_def cells_def getitem_def agg_defs)

section \<open>The ranking\<close>

text \<open>
  C5, as amended. When \<open>analyze\<close> returns, its ranking has exactly one entry for each zip
  code of \<open>ZIP_CODES\<close> that has both datasets in the store, the entry pairs the zip code
  with its ratio, the median rental price per square foot over the median sale price per
  square foot, and the entries are in descending order of the ratio, with the entries
  whose ratio is NaN last. Entries of equal ratio are not ordered by their zip codes: the
  zip codes of the entries of one ratio come out in the order in which \<open>ZIP_CODES\<close> lists
  them, or, with the sort of pandas before 1.2 and a ratio that is not NaN, in the reverse
  of that order.
\<close>

theorem ranking_descending:
  "analyze keep_order zip_codes st = Inr rep \<Longrightarrow>
   distinct (map fst (ranking rep)) \<and>
   (\<forall>z. map_of (ranking rep) z = (if z \<in> set zip_codes \<and> has_both st z then zip_ratio st z else None)) \<and>
   (\<forall>z\<in>set zip_codes. has_both st z \<longrightarrow> zip_ratio st z \<noteq> None) \<and>
   descending_nan_last (ranking rep) \<and>
   (\<forall>v. map fst (filter (\<lambda>e. snd e = v) (ranking rep))
          = (if keep_order \<or> v = NaN then tied st zip_codes v else rev (tied st zip_codes v)))"
proof -
  assume a: "analyze keep_order zip_codes st = Inr rep"
  then obtain d out where l: "analyze_loop zip_codes st [] [] = Inr (d, out)"
    and r: "ranking rep = sort_values_descending keep_order d"
    by (auto simp: analyze_def split: sum.splits)
  from analyze_loop_dict[OF l] have d: "distinct (map fst d)"
    "\<forall>z. map_of d z = (if z \<in> set zip_codes \<and> has_both st z then zip_ratio st z else None)"
    "\<forall>z\<in>set zip_codes. has_both st z \<longrightarrow> zip_ratio st z \<noteq> None"
    by simp_all
  have m: "mset (ranking rep) = mset d" by (simp add: r mset_sort_values_descending)
  then have "mset (map fst (ranking rep)) = mset (map fst d)" by (metis mset_map)
  with d(1) have dr: "distinct (map fst (ranking rep))" by (metis mset_eq_imp_distinct_iff)
  from m have "set (ranking rep) = set d" by (metis set_mset_mset)
  with dr d(1) have "map_of (ranking rep) = map_of d" by (simp add: map_of_inject_set)
  with dr d descending_sort_values[of keep_order d] r have first:
    "distinct (map fst (ranking rep)) \<and>
     (\<forall>z. map_of (ranking rep) z = (if z \<in> set zip_codes \<and> has_both st z then zip_ratio st z else None)) \<and>
     (\<forall>z\<in>set zip_codes. has_both st z \<longrightarrow> zip_ratio st z \<noteq> None) \<and>
     descending_nan_last (ranking rep)"
    by simp
  have k: "map fst d = first_seen (filter (has_both st) zip_codes)"
    using analyze_loop_keys[OF l] by simp
  have t: "map fst (filter (\<lambda>e. snd e = v) d) = tied st zip_codes v" for v
  proof -
    have "filter (\<lambda>z. map_of d z = Some v) (first_seen (filter (has_both st) zip_codes))
        = filter (\<lambda>z. zip_ratio st z = Some v) (first_seen (filter (has_both st) zip_codes))"
      using d(2) by (intro filter_cong) (auto simp: set_first_seen)
    then show ?thesis
      unfolding tied_def map_fst_filter_value[OF d(1)] k .
  qed
  have "map fst (filter (\<lambda>e. snd e = v) (ranking rep))
          = (if keep_order \<or> v = NaN then tied st zip_codes v else rev (tied st zip_codes v))" for v
    unfolding r filter_sort_values_descending using t[of v] by (simp add: rev_map[symmetric])
  with first show ?thesis by blast
qed

theorem ranking_descending_witness:
  "analyze True [''B'', ''C'', ''A''] store_AB = Inr rep_AB \<and>
   ranking rep_AB = [(''A'', Fin 2), (''B'', Fin (3 / 2))] \<and>
   distinct (map fst (ranking rep_AB)) \<and>
   (\<forall>z. map_of (ranking rep_AB) z
          = (if z \<in> set [''B'', ''C'', ''A''] \<and> has_both store_AB z then zip_ratio store_AB z else None)) \<and>
   descending_nan_last (ranking rep_AB) \<and>
   (\<forall>v. map fst (filter (\<lambda>e. snd e = v) (ranking rep_AB)) = tied store_AB [''B'', ''C'', ''A''] v)"
proof -
  have a: "analyze True [''B'', ''C'', ''A''] store_AB = Inr rep_AB" by (rule analyze_store_AB)
  have r: "ranking rep_AB = [(''A'', Fin 2), (''B'', Fin (3 / 2))]" by (simp add: rep_AB_def)
  from ranking_descending [OF a] have
    "\<forall>v. map fst (filter (\<lambda>e. snd e = v) (ranking rep_AB)) = tied store_AB [''B'', ''C'', ''A''] v"
    by simp
  with ranking_descending [OF a] a r show ?thesis by blast
qed

text \<open>The claim as stated fails on the ties: with one ratio for all five zip codes the
  ranking lists them as \<open>ZIP_CODES\<close> does, or in the reverse of that with the older sort,
  and neither is the order of the zip codes.\<close>

theorem ties_follow_ZIP_CODES:
  "map_sum id ranking (analyze True ZIP_CODES tie_store)
     = Inr [(''55414'', Fin 1), (''53711'', Fin 1), (''53545'', Fin 1), (''53202'', Fin 1),
            (''55806'', Fin 1)] \<and>
   map_sum id ranking (analyze False ZIP_CODES tie_store)
     = Inr [(''55806'', Fin 1), (''53202'', Fin 1), (''53545'', Fin 1), (''53711'', Fin 1),
            (''55414'', Fin 1)]"
  by (simp add: ZIP_CODES_def tie_store_def agg_defs)

section \<open>Zip codes without both datasets\<close>

text \<open>
  C8. A zip code whose rental dataset or sale dataset is not in the store has no entry in
  the ranking and raises nothing: \<open>analyze\<close> over all zip codes gives the ranking, or the
  exception, that it gives over just the zip codes that have both datasets, so the other
  zip codes are processed and ranked as if the incomplete ones were not listed.
\<close>

theorem missing_dataset_excluded:
  "map_sum id ranking (analyze keep_order zip_codes st)
     = map_sum id ranking (analyze keep_order (filter (has_both st) zip_codes) st)
   \<and> (\<forall>rep z. analyze keep_order zip_codes st = Inr rep \<and> \<not> has_both st z
          \<longrightarrow> z \<notin> fst ` set (ranking rep))"
proof (intro conjI allI impI)
  from analyze_loop_filter[of zip_codes st "[]" "[]" "[]"]
  show "map_sum id ranking (analyze keep_order zip_codes st)
     = map_sum id ranking (analyze keep_order (filter (has_both st) zip_codes) st)"
    by (auto simp: analyze_def split: sum.splits)
next
  fix rep z
  assume a: "analyze keep_order zip_codes st = Inr rep \<and> \<not> has_both st z"
  then obtain d out where l: "analyze_loop zip_codes st [] [] = Inr (d, out)"
    and r: "ranking rep = sort_values_descending keep_order d"
    by (auto simp: analyze_def split: sum.splits)
  from analyze_loop_dict[OF l] a have "map_of d z = None" by simp
  then have "z \<notin> fst ` set d" by (simp add: map_of_eq_None_iff)
  moreover have "set (ranking rep) = set d"
    using mset_sort_values_descending[of keep_order d] r by (metis set_mset_mset)
  ultimately show "z \<notin> fst ` set (ranking rep)" by simp
qed


theorem missing_dataset_excluded_witness:
  "analyze True [''B'', ''C'', ''A''] store_AB = Inr rep_AB \<and>
   \<not> has_both store_AB ''C'' \<and>
   ''C'' \<notin> fst ` set (ranking rep_AB) \<and>
   filter (has_both store_AB) [''B'', ''C'', ''A''] = [''B'', ''A''] \<and>
   map_sum id ranking (analyze True [''B'', ''C'', ''A''] store_AB)
     = map_sum id ranking (analyze True (filter (has_both store_AB) [''B'', ''C'', ''A'']) store_AB)"
proof -
  have a: "analyze True [''B'', ''C'', ''A''] store_AB = Inr rep_AB" by (rule analyze_store_AB)
  have c: "\<not> has_both store_AB ''C''"
    by (simp add: has_both_def store_AB_def rental_path_def sales_path_def)
  have f: "filter (has_both store_AB) [''B'', ''C'', ''A''] = [''B'', ''A'']"
    by (simp add: has_both_def store_AB_def rental_path_def sales_path_def)
  from missing_dataset_excluded [of True "[''B'', ''C'', ''A'']" store_AB] a c f
  show ?thesis by blast
qed

section \<open>Tables up to the order of their columns\<close>













lemma cols_of_append: "cols_of l (df\<lparr>columns := xs @ ys\<rparr>) = filter (\<lambda>c. fst c = l) xs @ filter (\<lambda>c. fst c = l) ys"
  by (simp add: cols_of_def)

lemma expand_Cons:
  "expand (col # cols) df =
     (case filter (\<lambda>c. fst c = LStr col) (columns df) of
        [] \<Rightarrow> Inl KeyError
      | [c] \<Rightarrow> expand cols (df\<lparr>columns := filter (\<lambda>c. fst c \<noteq> LStr col) (columns df) @ block col (snd c)\<rparr>)
      | c # c' # cs \<Rightarrow> Inl Unmodelled)"
  by (auto simp: drop_axis1_def getitem_def concat_axis1_def block_def filter_label_empty[symmetric]
      split: list.splits)

lemma block_prefixed: "col \<noteq> ''address'' \<Longrightarrow> c \<in> set (block col xs) \<Longrightarrow> \<exists>x. fst c = LStr (col @ ''_'' @ x)"
  by (auto simp: block_def add_prefix_def)

lemma filter_block_lot: "filter (\<lambda>c. fst c = LStr ''building_size'') (block ''lot_size'' xs) = []"
  by (auto simp: filter_empty_conv dest!: block_prefixed[rotated])


lemma filter_neg_block_lot: "filter (\<lambda>c. fst c \<noteq> LStr ''building_size'') (block ''lot_size'' xs) = block ''lot_size'' xs"
  by (rule filter_True) (auto dest!: block_prefixed[rotated])














lemma persisted_alike_nothing:
  "store x = store w \<Longrightarrow> puts x = puts w \<Longrightarrow> store y = store w' \<Longrightarrow> puts y = puts w' \<Longrightarrow>
   persisted_alike rp sp w w' x y"
  by (simp add: persisted_alike_def)



section \<open>Rentals and sales are processed alike\<close>





section \<open>Flattening the nested fields\<close>

lemma columns_frame_of_records:
  "columns (frame_of_records LStr ds) = map (\<lambda>k. (LStr k, top_column ds k)) (record_keys ds)"
  by (simp add: frame_of_records_def top_column_def record_keys_def)

lemma filter_label_map:
  "distinct ks \<Longrightarrow> filter (\<lambda>c. fst c = LStr k) (map (\<lambda>k. (LStr k, f k)) ks)
     = (if k \<in> set ks then [(LStr k, f k)] else [])"
proof (induction ks)
  case Nil
  then show ?case by simp
next
  case (Cons a ks)
  then show ?case by (auto simp: filter_empty_conv)
qed

lemma maybe_convert_length: "length (maybe_convert_objects cs) = length cs"
  by (simp add: maybe_convert_objects_def)

lemma maybe_convert_nth:
  "i < length cs \<Longrightarrow>
   maybe_convert_objects cs ! i = cs ! i \<or> maybe_convert_objects cs ! i = to_float64 (cs ! i)"
  by (simp add: maybe_convert_objects_def)

lemma maybe_convert_dict:
  "i < length cs \<Longrightarrow> cs ! i = PDict sub \<Longrightarrow> maybe_convert_objects cs = cs"
proof -
  assume a: "i < length cs" "cs ! i = PDict sub"
  then have "PDict sub \<in> set cs" by (metis nth_mem)
  then have "\<not> list_all (\<lambda>c. is_float c \<or> in_int64 c \<or> c = PNone) cs"
    unfolding list_all_iff by (intro notI) (drule bspec, assumption, simp)
  then show ?thesis by (simp add: maybe_convert_objects_def)
qed

lemma top_column_dict:
  "i < length ds \<Longrightarrow> map_of (ds ! i) k = Some (PDict sub) \<Longrightarrow> top_column ds k ! i = PDict sub"
  using maybe_convert_dict[of i "map (\<lambda>d. lookup_or_nan d k) ds" sub]
  by (simp add: top_column_def lookup_or_nan_def)

lemma length_top_column: "length (top_column ds k) = length ds"
  by (simp add: top_column_def maybe_convert_length)

lemma apply_Series_cell:
  assumes "i < length xs" and "xs ! i = PDict sub" and "map_of sub f = Some v"
  shows "\<exists>c \<in> set (columns (apply_Series xs)). fst c = LStr f \<and> length (snd c) = length xs \<and>
           (snd c ! i = v \<or> snd c ! i = to_float64 v)"
proof -
  let ?rows = "map Series xs"
  let ?col = "map (\<lambda>r. lookup_or_nan r (LStr f)) ?rows"
  have fk: "f \<in> fst ` set sub" using assms(3) by (metis map_of_eq_None_iff option.distinct(1))
  have "LStr f \<in> set (map fst (Series (xs ! i)))"
    using fk assms(2) by (auto simp: image_iff)
  moreover have "map fst (Series (xs ! i)) \<in> set (map (map fst) ?rows)" using assms(1) by simp
  ultimately have "LStr f \<in> set (concat (map (map fst) ?rows))"
    unfolding set_concat by blast
  then have m: "(LStr f, maybe_convert_objects ?col) \<in> set (columns (apply_Series xs))"
    by (auto simp: apply_Series_def frame_of_records_def set_first_seen image_iff)
  have "map_of (Series (PDict sub)) (LStr f) = Some v"
    using assms(3) by (induction sub) (auto split: if_splits)
  then have "?col ! i = v" using assms(1,2) by (simp add: lookup_or_nan_def)
  with maybe_convert_nth[of i ?col] assms(1)
  have "maybe_convert_objects ?col ! i = v \<or> maybe_convert_objects ?col ! i = to_float64 v"
    by auto
  with m show ?thesis by (auto simp: maybe_convert_length intro!: bexI[of _ "(LStr f, maybe_convert_objects ?col)"])
qed

lemma Series_LStr:
  "LStr x \<in> fst ` set (Series c) \<Longrightarrow> \<exists>sub. c = PDict sub \<and> x \<in> fst ` set sub"
  by (cases c) (auto simp: image_iff in_set_zip)

lemma apply_Series_labels:
  "LStr x \<in> fst ` set (columns (apply_Series xs)) \<Longrightarrow> \<exists>sub. PDict sub \<in> set xs \<and> x \<in> fst ` set sub"
proof -
  assume "LStr x \<in> fst ` set (columns (apply_Series xs))"
  then have "LStr x \<in> set (concat (map (map fst) (map Series xs)))"
    by (auto simp: apply_Series_def frame_of_records_def set_first_seen) force
  then obtain c where c: "c \<in> set xs" "LStr x \<in> fst ` set (Series c)"
    unfolding set_concat by force
  from Series_LStr[OF c(2)] c(1) show ?thesis by blast
qed

lemma to_float64_PDict: "PDict sub = to_float64 c \<Longrightarrow> to_float64 c = c"
  by (cases c) auto

lemma set_maybe_convert:
  assumes "PDict sub \<in> set (maybe_convert_objects cs)"
  shows "PDict sub \<in> set cs"
proof (cases "maybe_convert_objects cs = cs")
  case True
  with assms show ?thesis by simp
next
  case False
  then have "maybe_convert_objects cs = map to_float64 cs"
    by (simp add: maybe_convert_objects_def split: if_splits)
  with assms obtain c where c: "c \<in> set cs" "PDict sub = to_float64 c" by auto
  from to_float64_PDict[OF c(2)] c show ?thesis by simp
qed

lemma top_column_PDict:
  "PDict sub \<in> set (top_column ds k) \<Longrightarrow> \<exists>d\<in>set ds. map_of d k = Some (PDict sub)"
proof -
  assume "PDict sub \<in> set (top_column ds k)"
  then have "PDict sub \<in> set (map (\<lambda>d. lookup_or_nan d k) ds)"
    unfolding top_column_def by (rule set_maybe_convert)
  then obtain d where "d \<in> set ds" "lookup_or_nan d k = PDict sub" by auto
  then show ?thesis by (auto simp: lookup_or_nan_def split: option.splits)
qed

lemma address_block_labels:
  assumes "x \<notin> set (sub_keys ds ''address'')"
  shows "LStr x \<notin> fst ` set (block ''address'' (top_column ds ''address''))"
proof
  assume "LStr x \<in> fst ` set (block ''address'' (top_column ds ''address''))"
  then have "LStr x \<in> fst ` set (columns (apply_Series (top_column ds ''address'')))"
    by (simp add: block_def)
  from apply_Series_labels[OF this] obtain sub where
    s: "PDict sub \<in> set (top_column ds ''address'')" "x \<in> fst ` set sub" by blast
  from top_column_PDict[OF s(1)] obtain d where d: "d \<in> set ds" "map_of d ''address'' = Some (PDict sub)"
    by blast
  with s(2) have "x \<in> set (sub_keys ds ''address'')"
    unfolding sub_keys_def set_concat by (auto intro!: bexI[of _ d])
  with assms show False by simp
qed

lemma filter_neg_label_map:
  "filter (\<lambda>c. fst c \<noteq> LStr k) (map (\<lambda>k. (LStr k, f k)) ks) = map (\<lambda>k. (LStr k, f k)) (filter (\<lambda>x. x \<noteq> k) ks)"
  by (induction ks) auto

lemma expand_records:
  assumes "''address'' \<in> set (record_keys ds)" and "''lot_size'' \<in> set (record_keys ds)"
    and "''building_size'' \<in> set (record_keys ds)"
    and "''lot_size'' \<notin> set (sub_keys ds ''address'')"
    and "''building_size'' \<notin> set (sub_keys ds ''address'')"
  shows "expand [''address'', ''lot_size'', ''building_size''] (frame_of_records LStr ds) =
     Inr \<lparr>nrows = length ds,
          columns = flat_columns ds @ block ''address'' (top_column ds ''address'')
                    @ block ''lot_size'' (top_column ds ''lot_size'')
                    @ block ''building_size'' (top_column ds ''building_size'')\<rparr>"
proof -
  let ?g = "\<lambda>k. (LStr k, top_column ds k)"
  let ?A = "block ''address'' (top_column ds ''address'')"
  let ?L = "block ''lot_size'' (top_column ds ''lot_size'')"
  let ?B = "block ''building_size'' (top_column ds ''building_size'')"
  have dk: "distinct (record_keys ds)" by (simp add: record_keys_def distinct_first_seen)
  have fr: "frame_of_records LStr ds = \<lparr>nrows = length ds, columns = map ?g (record_keys ds)\<rparr>"
    by (simp add: frame_of_records_def top_column_def record_keys_def)
  have Al: "filter (\<lambda>c. fst c = LStr ''lot_size'') ?A = []"
    "filter (\<lambda>c. fst c = LStr ''building_size'') ?A = []"
    using address_block_labels[OF assms(4)] address_block_labels[OF assms(5)]
    by (auto simp: filter_empty_conv image_iff)
  have An: "filter (\<lambda>c. fst c \<noteq> LStr ''lot_size'') ?A = ?A"
    "filter (\<lambda>c. fst c \<noteq> LStr ''building_size'') ?A = ?A"
    using address_block_labels[OF assms(4)] address_block_labels[OF assms(5)]
    by (auto intro!: filter_True simp: image_iff)
  have 1: "expand [''address'', ''lot_size'', ''building_size''] (frame_of_records LStr ds)
     = expand [''lot_size'', ''building_size'']
         \<lparr>nrows = length ds, columns = map ?g (filter (\<lambda>x. x \<noteq> ''address'') (record_keys ds)) @ ?A\<rparr>"
    unfolding fr expand_Cons[of "''address''"]
    using assms(1) dk by (simp add: filter_label_map filter_neg_label_map)
  have 2: "expand [''lot_size'', ''building_size'']
         \<lparr>nrows = length ds, columns = map ?g (filter (\<lambda>x. x \<noteq> ''address'') (record_keys ds)) @ ?A\<rparr>
     = expand [''building_size'']
         \<lparr>nrows = length ds,
          columns = map ?g (filter (\<lambda>x. x \<noteq> ''lot_size'') (filter (\<lambda>x. x \<noteq> ''address'') (record_keys ds))) @ ?A @ ?L\<rparr>"
    unfolding expand_Cons[of "''lot_size''"]
    using assms(2) dk by (simp add: filter_label_map filter_neg_label_map Al An del: filter_filter)
  have 3: "expand [''building_size'']
         \<lparr>nrows = length ds,
          columns = map ?g (filter (\<lambda>x. x \<noteq> ''lot_size'') (filter (\<lambda>x. x \<noteq> ''address'') (record_keys ds))) @ ?A @ ?L\<rparr>
     = Inr \<lparr>nrows = length ds,
          columns = map ?g (filter (\<lambda>x. x \<noteq> ''building_size'') (filter (\<lambda>x. x \<noteq> ''lot_size'')
                       (filter (\<lambda>x. x \<noteq> ''address'') (record_keys ds)))) @ ?A @ ?L @ ?B\<rparr>"
    unfolding expand_Cons[of "''building_size''"]
    using assms(3) dk
    by (simp add: filter_label_map filter_neg_label_map Al An filter_block_lot filter_neg_block_lot
        del: filter_filter)
  have 4: "map ?g (filter (\<lambda>x. x \<noteq> ''building_size'') (filter (\<lambda>x. x \<noteq> ''lot_size'')
                       (filter (\<lambda>x. x \<noteq> ''address'') (record_keys ds)))) = flat_columns ds"
    by (simp add: flat_columns_def conj_commute conj_left_commute cong: conj_cong)
  show ?thesis unfolding 1 2 3 4 ..
qed

lemma has_cell_I:
  "c \<in> set (columns df) \<Longrightarrow> fst c = l \<Longrightarrow> snd c ! i = v \<or> snd c ! i = to_float64 v \<Longrightarrow>
   has_cell df l i v"
  unfolding has_cell_def list_ex_iff by blast

lemma block_address_cell:
  assumes "i < length ds" and "map_of (ds ! i) ''address'' = Some (PDict sub)" and "map_of sub f = Some v"
  shows "\<exists>c\<in>set (block ''address'' (top_column ds ''address'')).
           fst c = LStr f \<and> (snd c ! i = v \<or> snd c ! i = to_float64 v)"
  using apply_Series_cell[of i "top_column ds ''address''" sub f v]
    top_column_dict[OF assms(1,2)] assms(1,3)
  by (auto simp: block_def length_top_column)

lemma block_prefixed_cell:
  assumes "col \<noteq> ''address''" and "i < length ds" and "map_of (ds ! i) col = Some (PDict sub)"
    and "map_of sub f = Some v"
  shows "\<exists>c\<in>set (block col (top_column ds col)).
           fst c = LStr (col @ ''_'' @ f) \<and> (snd c ! i = v \<or> snd c ! i = to_float64 v)"
proof -
  from apply_Series_cell[of i "top_column ds col" sub f v] top_column_dict[OF assms(2,3)] assms(2,4)
  obtain c where c: "c \<in> set (columns (apply_Series (top_column ds col)))" "fst c = LStr f"
    "snd c ! i = v \<or> snd c ! i = to_float64 v"
    by (auto simp: length_top_column)
  let ?c = "(LStr ((col @ ''_'') @ str_label (fst c)), snd c)"
  from c(1) assms(1) have "?c \<in> set (block col (top_column ds col))"
    by (simp add: block_def add_prefix_def image_iff) (rule bexI[of _ c], simp_all)
  with c(2,3) show ?thesis by (intro bexI[of _ ?c]) simp_all
qed

lemma those_as_dict: "those (map as_dict (map PDict ds)) = Some ds"
  by (induction ds) simp_all

text \<open>
  C3, as amended. For the listings of a payload in which each of \<open>address\<close>, \<open>lot_size\<close>
  and \<open>building_size\<close> is a key of some listing, and no address has a sub-field named
  \<open>lot_size\<close> or \<open>building_size\<close>, normalization returns a table with a record per
  listing, in which every sub-field of a listing's nested \<open>address\<close> object is a cell of
  that listing's record under its own name, and every sub-field of its \<open>lot_size\<close> and
  \<open>building_size\<close> objects a cell under the parent's name, an underscore and its name.
  The cell holds the value as it is, or as its float where pandas makes the column a float
  column (an integer as the float of it, \<open>None\<close> as NaN). In particular, for the listing
  of the specification in a payload whose other listing is the same with a lot size added,
  the record has \<open>city = X\<close> and \<open>building_size_size = 1200\<close>, and the KPIs are 200, 80000
  and 120000. (\<open>frame_of_records LStr ds\<close> is the table that \<open>pd.DataFrame\<close> makes of the
  listings \<open>ds\<close>.)
\<close>

theorem nested_fields_merged:
  "DataFrame (PList (map PDict ds)) = Inr (frame_of_records LStr ds) \<and>
   (''address'' \<in> set (record_keys ds) \<and> ''lot_size'' \<in> set (record_keys ds) \<and>
    ''building_size'' \<in> set (record_keys ds) \<and>
    ''lot_size'' \<notin> set (sub_keys ds ''address'') \<and>
    ''building_size'' \<notin> set (sub_keys ds ''address'') \<longrightarrow>
    (\<exists>df. expand [''address'', ''lot_size'', ''building_size''] (frame_of_records LStr ds) = Inr df \<and>
       nrows df = length ds \<and>
       (\<forall>i sub f v. i < length ds \<and> map_of (ds ! i) ''address'' = Some (PDict sub) \<and>
            map_of sub f = Some v \<longrightarrow> has_cell df (LStr f) i v) \<and>
       (\<forall>i sub f v. i < length ds \<and> map_of (ds ! i) ''lot_size'' = Some (PDict sub) \<and>
            map_of sub f = Some v \<longrightarrow> has_cell df (LStr (''lot_size_'' @ f)) i v) \<and>
       (\<forall>i sub f v. i < length ds \<and> map_of (ds ! i) ''building_size'' = Some (PDict sub) \<and>
            map_of sub f = Some v \<longrightarrow> has_cell df (LStr (''building_size_'' @ f)) i v)))
   \<and> DataFrame (PList [spec_listing, listing_X]) = Inr (frame_of_records LStr two_listings)
   \<and> (\<exists>df. tabulate [''address'', ''lot_size'', ''building_size''] ''2020-05-01''
               (frame_of_records LStr two_listings) = Inr df \<and>
         distinct (map fst (record_of df 0)) \<and>
         map_of (record_of df 0) (LStr ''city'') = Some (PStr ''X'') \<and>
         map_of (record_of df 0) (LStr ''building_size_size'') = Some (PInt 1200) \<and>
         map_of (record_of df 0) (LStr ''price_per_sqft'') = Some (PNum (Fin 200)) \<and>
         map_of (record_of df 0) (LStr ''price_per_beds'') = Some (PNum (Fin 80000)) \<and>
         map_of (record_of df 0) (LStr ''price_per_bath'') = Some (PNum (Fin 120000)))"
proof (intro conjI impI)
  show "DataFrame (PList (map PDict ds)) = Inr (frame_of_records LStr ds)"
    unfolding DataFrame.simps those_as_dict by simp
next
  show "DataFrame (PList [spec_listing, listing_X]) = Inr (frame_of_records LStr two_listings)"
    by (simp add: spec_listing_def listing_X_def two_listings_def)
next
  assume h: "''address'' \<in> set (record_keys ds) \<and> ''lot_size'' \<in> set (record_keys ds) \<and>
    ''building_size'' \<in> set (record_keys ds) \<and>
    ''lot_size'' \<notin> set (sub_keys ds ''address'') \<and>
    ''building_size'' \<notin> set (sub_keys ds ''address'')"
  let ?df = "\<lparr>nrows = length ds,
          columns = flat_columns ds @ block ''address'' (top_column ds ''address'')
                    @ block ''lot_size'' (top_column ds ''lot_size'')
                    @ block ''building_size'' (top_column ds ''building_size'')\<rparr>"
  from h have e: "expand [''address'', ''lot_size'', ''building_size''] (frame_of_records LStr ds) = Inr ?df"
    by (intro expand_records) simp_all
  have a: "has_cell ?df (LStr f) i v"
    if "i < length ds \<and> map_of (ds ! i) ''address'' = Some (PDict sub) \<and> map_of sub f = Some v"
    for i sub f v
    using block_address_cell[of i ds sub f v] that by (auto intro!: has_cell_I)
  have l: "has_cell ?df (LStr (''lot_size_'' @ f)) i v"
    if "i < length ds \<and> map_of (ds ! i) ''lot_size'' = Some (PDict sub) \<and> map_of sub f = Some v"
    for i sub f v
    using block_prefixed_cell[of "''lot_size''" i ds sub f v] that by (auto intro!: has_cell_I)
  have b: "has_cell ?df (LStr (''building_size_'' @ f)) i v"
    if "i < length ds \<and> map_of (ds ! i) ''building_size'' = Some (PDict sub) \<and> map_of sub f = Some v"
    for i sub f v
    using block_prefixed_cell[of "''building_size''" i ds sub f v] that by (auto intro!: has_cell_I)
  show "\<exists>df. expand [''address'', ''lot_size'', ''building_size''] (frame_of_records LStr ds) = Inr df \<and>
       nrows df = length ds \<and>
       (\<forall>i sub f v. i < length ds \<and> map_of (ds ! i) ''address'' = Some (PDict sub) \<and>
            map_of sub f = Some v \<longrightarrow> has_cell df (LStr f) i v) \<and>
       (\<forall>i sub f v. i < length ds \<and> map_of (ds ! i) ''lot_size'' = Some (PDict sub) \<and>
            map_of sub f = Some v \<longrightarrow> has_cell df (LStr (''lot_size_'' @ f)) i v) \<and>
       (\<forall>i sub f v. i < length ds \<and> map_of (ds ! i) ''building_size'' = Some (PDict sub) \<and>
            map_of sub f = Some v \<longrightarrow> has_cell df (LStr (''building_size_'' @ f)) i v)"
  proof (intro exI[of _ ?df] conjI allI impI)
    show "expand [''address'', ''lot_size'', ''building_size''] (frame_of_records LStr ds) = Inr ?df"
      by (rule e)
  qed (simp, (erule a l b)+)
next
  show "\<exists>df. tabulate [''address'', ''lot_size'', ''building_size''] ''2020-05-01''
               (frame_of_records LStr two_listings) = Inr df \<and>
         distinct (map fst (record_of df 0)) \<and>
         map_of (record_of df 0) (LStr ''city'') = Some (PStr ''X'') \<and>
         map_of (record_of df 0) (LStr ''building_size_size'') = Some (PInt 1200) \<and>
         map_of (record_of df 0) (LStr ''price_per_sqft'') = Some (PNum (Fin 200)) \<and>
         map_of (record_of df 0) (LStr ''price_per_beds'') = Some (PNum (Fin 80000)) \<and>
         map_of (record_of df 0) (LStr ''price_per_bath'') = Some (PNum (Fin 120000))"
    by (simp add: two_listings_def record_of_def run_defs str_nat.simps)
qed

theorem nested_fields_merged_witness:
  "''address'' \<in> set (record_keys two_listings) \<and> ''lot_size'' \<in> set (record_keys two_listings) \<and>
   ''building_size'' \<in> set (record_keys two_listings) \<and>
   ''lot_size'' \<notin> set (sub_keys two_listings ''address'') \<and>
   ''building_size'' \<notin> set (sub_keys two_listings ''address'') \<and>
   (\<exists>df. expand [''address'', ''lot_size'', ''building_size''] (frame_of_records LStr two_listings) = Inr df \<and>
      nrows df = length two_listings \<and>
      has_cell df (LStr ''city'') 0 (PStr ''X'') \<and>
      has_cell df (LStr ''building_size_size'') 0 (PInt 1200) \<and>
      has_cell df (LStr ''lot_size_size'') 1 (PInt 5000))"
proof -
  have h: "''address'' \<in> set (record_keys two_listings) \<and> ''lot_size'' \<in> set (record_keys two_listings) \<and>
    ''building_size'' \<in> set (record_keys two_listings) \<and>
    ''lot_size'' \<notin> set (sub_keys two_listings ''address'') \<and>
    ''building_size'' \<notin> set (sub_keys two_listings ''address'')"
    by (simp add: record_keys_def first_seen_def sub_keys_def two_listings_def)
  from nested_fields_merged [of two_listings] h obtain df where
    e: "expand [''address'', ''lot_size'', ''building_size''] (frame_of_records LStr two_listings) = Inr df"
    and n: "nrows df = length two_listings"
    and a: "\<And>i sub f v. i < length two_listings \<and> map_of (two_listings ! i) ''address'' = Some (PDict sub) \<and>
            map_of sub f = Some v \<Longrightarrow> has_cell df (LStr f) i v"
    and l: "\<And>i sub f v. i < length two_listings \<and> map_of (two_listings ! i) ''lot_size'' = Some (PDict sub) \<and>
            map_of sub f = Some v \<Longrightarrow> has_cell df (LStr (''lot_size_'' @ f)) i v"
    and b: "\<And>i sub f v. i < length two_listings \<and> map_of (two_listings ! i) ''building_size'' = Some (PDict sub) \<and>
            map_of sub f = Some v \<Longrightarrow> has_cell df (LStr (''building_size_'' @ f)) i v"
    by blast
  have 1: "has_cell df (LStr ''city'') 0 (PStr ''X'')"
    by (rule a[of 0 "[(''city'', PStr ''X'')]" "''city''"]) (simp add: two_listings_def)
  have 2: "has_cell df (LStr ''building_size_size'') 0 (PInt 1200)"
    using b[of 0 "[(''size'', PInt 1200)]" "''size''" "PInt 1200"]
    by (simp add: two_listings_def)
  have 3: "has_cell df (LStr ''lot_size_size'') 1 (PInt 5000)"
    using l[of 1 "[(''size'', PInt 5000)]" "''size''" "PInt 5000"]
    by (simp add: two_listings_def)
  from h e n 1 2 3 show ?thesis by blast
qed


text \<open>The claim as stated fails: a payload of the specification's listing alone has no
  \<open>lot_size\<close> column, \<open>df.drop\<close> raises KeyError outside the \<open>try\<close>, and no record is made.\<close>

theorem spec_listing_alone_raises:
  "fst spec_only_run = Raised KeyError \<and> puts (snd spec_only_run) = [] \<and>
   store (snd spec_only_run) ''data/rentals_55414.csv'' = None"
  by (simp add: spec_only_run_def spec_only_def spec_listing_def run_defs)

end
